theory Spec2Isabelle
  imports Complex_Main "HOL-Library.Char_ord" "HOL-Library.List_Lexorder" "HOL-Library.Product_Lexorder"
begin

section \<open>Python values, strings and messages\<close>

text \<open>
  The values a Python attribute or a dictionary entry holds in this program. Floats and
  \<open>Decimal\<close>s are modelled as exact reals: rounding of binary floating point is not part
  of the model.
\<close>

datatype pyval = PNone | PBool bool | PInt int | PFloat real | PStr string

text \<open>Python truthiness (\<open>if x:\<close>, \<open>x or y\<close>, \<open>all([...])\<close>).\<close>

fun truthy :: "pyval \<Rightarrow> bool" where
  "truthy PNone = False"
| "truthy (PBool b) = b"
| "truthy (PInt i) = (i \<noteq> 0)"
| "truthy (PFloat x) = (x \<noteq> 0)"
| "truthy (PStr s) = (s \<noteq> [])"

text \<open>
  Strings are lists of 8-bit characters read as code points. \<open>str.isspace\<close> on the code
  points below 256: TAB..CR, FS..US, space, NEL and the no-break space.
\<close>

definition isspace :: "char \<Rightarrow> bool" where
  "isspace c =
     (let n = (of_char c :: nat)
      in (9 \<le> n \<and> n \<le> 13) \<or> (28 \<le> n \<and> n \<le> 32) \<or> n = 133 \<or> n = 160)"

text \<open>\<open>s.strip()\<close>: leading and trailing whitespace removed.\<close>

definition strip :: "string \<Rightarrow> string" where
  "strip s = rev (dropWhile isspace (rev (dropWhile isspace s)))"

text \<open>\<open>s.lower()\<close> on the ASCII letters; other characters are left as they are.\<close>

definition lower_char :: "char \<Rightarrow> char" where
  "lower_char c =
     (let n = (of_char c :: nat) in if 65 \<le> n \<and> n \<le> 90 then char_of (n + 32) else c)"

definition lower :: "string \<Rightarrow> string" where
  "lower s = map lower_char s"

text \<open>\<open>str(n)\<close> of an integer: its decimal digits, with a minus sign when negative.\<close>

fun str_nat :: "nat \<Rightarrow> string" where
  "str_nat n = (if n < 10 then [char_of (48 + n)] else str_nat (n div 10) @ [char_of (48 + n mod 10)])"

declare str_nat.simps [simp del]

definition str_int :: "int \<Rightarrow> string" where
  "str_int i = (if i < 0 then CHR ''-'' # str_nat (nat (- i)) else str_nat (nat i))"

text \<open>\<open>sep.join(parts)\<close>.\<close>

fun join :: "string \<Rightarrow> string list \<Rightarrow> string" where
  "join sep [] = []"
| "join sep [x] = x"
| "join sep (x # y # ys) = x @ sep @ join sep (y # ys)"

text \<open>\<open>needle in hay\<close> for strings: \<open>needle\<close> occurs as a contiguous substring.\<close>

fun startswith :: "string \<Rightarrow> string \<Rightarrow> bool" where
  "startswith hay [] = True"
| "startswith [] (n # ns) = False"
| "startswith (h # hs) (n # ns) = (h = n \<and> startswith hs ns)"

fun contains :: "string \<Rightarrow> string \<Rightarrow> bool" where
  "contains [] needle = (needle = [])"
| "contains (h # hs) needle = (startswith (h # hs) needle \<or> contains hs needle)"

text \<open>
  An f-string is the list of its literal parts and of the values it interpolates; how
  Python prints a number is not modelled. \<open>NoneV\<close> is an interpolated \<open>None\<close>.
\<close>

datatype frag = Lit string | IntV int | FloatV real | NoneV

type_synonym message = "frag list"

text \<open>The exceptions the modelled code raises or lets through.\<close>

datatype exn =
    AttributeError
  | ZeroDivisionError
  | ValueError message
  | ValidationError "message list"
  | GeocodingError message
  | IntegrityError message
  | MultipleObjectsReturned

text \<open>
  \<open>str(e)\<close> of a caught exception, as the f-strings interpolate it. Python's text for
  an AttributeError also names the type of the value; it is abbreviated here.
\<close>

fun exn_str :: "exn \<Rightarrow> message" where
  "exn_str AttributeError = [Lit ''object has no attribute strip'']"
| "exn_str ZeroDivisionError = [Lit ''float division by zero'']"
| "exn_str (ValueError m) = m"
| "exn_str (ValidationError ms) = concat ms"
| "exn_str (GeocodingError m) = m"
| "exn_str (IntegrityError m) = m"
| "exn_str MultipleObjectsReturned = [Lit ''get() returned more than one Church'']"

section \<open>The Church model (churches/models.py)\<close>

text \<open>
  One instance of \<open>Church\<close>. The four required text fields are strings; the optional
  attributes hold whatever the importer assigned. \<open>pk\<close> is \<open>None\<close> until the first save.
  The timestamps are not modelled. The configured database engine is sqlite3, so
  \<open>HAS_POSTGIS\<close> is false and the PostGIS branches are not taken.
\<close>

record church =
  pk :: "nat option"
  name :: string
  street_address :: string
  city :: string
  state :: string
  zip_code :: pyval
  latitude :: "real option"
  longitude :: "real option"
  phone :: pyval
  website :: pyval
  email :: pyval
  service_times :: pyval
  geocoding_accuracy :: string
  is_active :: pyval

text \<open>\<open>Church.clean\<close>: the checks in the order of the source; the first that fails raises.\<close>

definition clean :: "church \<Rightarrow> exn + unit" where
  "clean c =
     (if (latitude c = None) \<noteq> (longitude c = None) then
        Inl (ValidationError
          [[Lit ''Both latitude and longitude must be provided together, or both left empty.'']])
      else if (case latitude c of None \<Rightarrow> False | Some la \<Rightarrow> \<not> (- 90 \<le> la \<and> la \<le> 90)) then
        Inl (ValidationError [[Lit ''Latitude must be between -90 and 90 degrees.'']])
      else if (case longitude c of None \<Rightarrow> False | Some lo \<Rightarrow> \<not> (- 180 \<le> lo \<and> lo \<le> 180)) then
        Inl (ValidationError [[Lit ''Longitude must be between -180 and 180 degrees.'']])
      else if strip (name c) = [] then
        Inl (ValidationError [[Lit ''Church name is required.'']])
      else if strip (street_address c) = [] then
        Inl (ValidationError [[Lit ''Street address is required.'']])
      else if strip (city c) = [] then
        Inl (ValidationError [[Lit ''City is required.'']])
      else if strip (state c) = [] then
        Inl (ValidationError [[Lit ''State is required.'']])
      else Inr ())"

text \<open>The properties \<open>coordinates\<close> and \<open>has_coordinates\<close>.\<close>

definition coordinates :: "church \<Rightarrow> (real \<times> real) option" where
  "coordinates c =
     (case (latitude c, longitude c) of
        (Some la, Some lo) \<Rightarrow> Some (la, lo)
      | _ \<Rightarrow> None)"

definition has_coordinates :: "church \<Rightarrow> bool" where
  "has_coordinates c = (coordinates c \<noteq> None)"

text \<open>
  The property \<open>full_address\<close>. \<open>part.strip()\<close> raises AttributeError on a part that is
  not a string, which only a truthy non-string \<open>zip_code\<close> can be.
\<close>

fun strip_parts :: "pyval list \<Rightarrow> exn + string list" where
  "strip_parts [] = Inr []"
| "strip_parts (PStr s # ps) =
     (case strip_parts ps of
        Inl e \<Rightarrow> Inl e
      | Inr rest \<Rightarrow> Inr (if strip s \<noteq> [] then strip s # rest else rest))"
| "strip_parts (p # ps) = Inl AttributeError"

definition full_address :: "church \<Rightarrow> exn + string" where
  "full_address c =
     (let address_parts =
            [PStr (street_address c), PStr (city c), PStr (state c)] @
            (if truthy (zip_code c) then [zip_code c] else [])
      in case strip_parts address_parts of
           Inl e \<Rightarrow> Inl e
         | Inr parts \<Rightarrow> Inr (join '', '' parts))"

text \<open>\<open>math.radians\<close>.\<close>

definition radians :: "real \<Rightarrow> real" where
  "radians d = d * pi / 180"

text \<open>
  The quantity \<open>a\<close> of the Haversine formula, on arguments already in radians.
\<close>

definition haversine_a :: "real \<Rightarrow> real \<Rightarrow> real \<Rightarrow> real \<Rightarrow> real" where
  "haversine_a lat1 lon1 lat2 lon2 =
     (let dlat = lat2 - lat1; dlon = lon2 - lon1
      in (sin (dlat / 2))\<^sup>2 + cos lat1 * cos lat2 * (sin (dlon / 2))\<^sup>2)"

text \<open>
  \<open>Church._haversine_distance\<close>. \<open>math.sqrt\<close> raises ValueError on a negative argument and
  \<open>math.asin\<close> outside \<open>[-1, 1]\<close>.
\<close>

definition haversine_distance :: "real \<Rightarrow> real \<Rightarrow> real \<Rightarrow> real \<Rightarrow> exn + real" where
  "haversine_distance lat1 lon1 lat2 lon2 =
     (let a = haversine_a (radians lat1) (radians lon1) (radians lat2) (radians lon2)
      in if a < 0 \<or> 1 < sqrt a then Inl (ValueError [Lit ''math domain error''])
         else let c = 2 * arcsin (sqrt a); r = 6371 in Inr (c * r))"

text \<open>
  \<open>Church.distance_to_point\<close> without PostGIS: \<open>None\<close> when the church has no
  coordinates.
\<close>

definition distance_to_point :: "church \<Rightarrow> real \<Rightarrow> real \<Rightarrow> exn + real option" where
  "distance_to_point c lat lng =
     (case coordinates c of
        None \<Rightarrow> Inr None
      | Some (la, lo) \<Rightarrow>
          (case haversine_distance la lo lat lng of
             Inl e \<Rightarrow> Inl e
           | Inr d \<Rightarrow> Inr (Some d)))"

text \<open>
  \<open>Church.set_coordinates\<close>. \<open>Decimal(str(x)).quantize(Decimal('0.0000001'))\<close> rounds to
  seven decimal places, ties to the even digit.
\<close>

definition round_half_even :: "real \<Rightarrow> int" where
  "round_half_even y =
     (let f = \<lfloor>y\<rfloor>; d = y - of_int f
      in if d < 1 / 2 then f else if 1 / 2 < d then f + 1 else if even f then f else f + 1)"

definition quantize7 :: "real \<Rightarrow> real" where
  "quantize7 x = of_int (round_half_even (x * 10000000)) / 10000000"

definition set_coordinates :: "church \<Rightarrow> real \<Rightarrow> real \<Rightarrow> string \<Rightarrow> exn + church" where
  "set_coordinates c lat lng accuracy =
     (if \<not> (- 90 \<le> lat \<and> lat \<le> 90) then
        Inl (ValueError [Lit ''Latitude must be between -90 and 90 degrees.''])
      else if \<not> (- 180 \<le> lng \<and> lng \<le> 180) then
        Inl (ValueError [Lit ''Longitude must be between -180 and 180 degrees.''])
      else if accuracy \<notin> set [''high'', ''medium'', ''low''] then
        Inl (ValueError [Lit ''Accuracy must be 'high', 'medium', or 'low'.''])
      else Inr (c\<lparr>latitude := Some (quantize7 lat),
                  longitude := Some (quantize7 lng),
                  geocoding_accuracy := accuracy\<rparr>))"

section \<open>The geocoding service (churches/services.py, GeocodingService)\<close>

text \<open>
  The provider's answer as \<open>_parse_geocoding_response\<close> reads it: a list of features, each
  with the coordinate list of its geometry and the three properties the code looks up.
  \<open>None\<close> stands for an absent key. The layer is a string and the confidence a number,
  as the provider's schema has them.
\<close>

record properties =
  p_confidence :: "real option"
  p_layer :: "string option"
  p_label :: "string option"

record feature =
  f_coordinates :: "real list"
  f_properties :: properties

text \<open>
  The dictionary \<open>geocode_address\<close> returns: the success entries, or \<open>success: False\<close>
  with an error message.
\<close>

datatype geocode_result =
    GeoOk (r_latitude: real) (r_longitude: real) (r_accuracy: string)
          (r_formatted_address: string) (r_confidence: real) (r_layer: string)
  | GeoFail (r_error: message)

fun success :: "geocode_result \<Rightarrow> bool" where
  "success (GeoOk la lo acc fa cf ly) = True"
| "success (GeoFail m) = False"

text \<open>
  The object an HTTPError carries in \<open>e.response\<close>: a \<open>requests.Response\<close>, or the
  \<open>unittest.mock.Mock\<close> that churches/tests.py puts there. The code tests the object's
  truth value (\<open>e.response and ...\<close>). \<open>requests.Response.__bool__\<close> returns \<open>self.ok\<close>,
  which is false exactly when \<open>raise_for_status\<close> would raise (status 400 to 599); a
  Mock is always true.
\<close>

datatype response = Response (status_code: int) | MockResponse (status_code: int)

fun truthy_response :: "response \<Rightarrow> bool" where
  "truthy_response (Response s) = (\<not> (400 \<le> s \<and> s < 600))"
| "truthy_response (MockResponse s) = True"

text \<open>
  What one pass through the \<open>try\<close> block of the attempt loop does: the body parses
  (\<open>Body\<close>), or one of the exceptions that the \<open>except\<close> clauses catch is raised, with
  its \<open>str(e)\<close>. \<open>RequestException\<close> stands for a request exception that is neither a
  Timeout nor an HTTPError, \<open>ParseError\<close> for a ValueError or KeyError that is not a
  request exception. The clauses are tried in the order of the source, so an exception
  that is both a request exception and a ValueError (the JSONDecodeError of requests
  2.27 and later) falls under \<open>RequestException\<close>.
\<close>

datatype outcome =
    Body "feature list"
  | Timeout string
  | HTTPError "response option" string
  | RequestException string
  | ParseError string

text \<open>One call of \<open>session.get\<close>: the query parameters and the timeout.\<close>

record request =
  req_params :: "(string \<times> pyval) list"
  req_timeout :: int

datatype cache_op = CacheGet string | CacheSet string nat

text \<open>
  Everything outside the functions: the network (the outcome of the k-th request, and
  the requests issued so far), the \<open>time.sleep\<close> calls, the Django cache with a log of
  its reads and writes, the table of churches, the configured API key, and the library
  functions the code calls and this theory takes as given: \<open>hashlib.md5(..).hexdigest()\<close>,
  Python's \<open>float\<close> on a string and \<open>str\<close> on a float, and the checks Django runs on one
  field of the model (\<open>Field.validate\<close> and the field's validators: maximal lengths, the
  URL and e-mail patterns, the choices, the decimal places and the coordinate bounds),
  which return the list of their error messages.
\<close>

record world =
  net :: "nat \<Rightarrow> outcome"
  requests :: "request list"
  sleeps :: "real list"
  cache :: "string \<Rightarrow> geocode_result option"
  cache_log :: "cache_op list"
  db :: "church list"
  settings_api_key :: "string option"
  md5_hexdigest :: "string \<Rightarrow> string"
  float_of_str :: "string \<Rightarrow> real option"
  repr_float :: "real \<Rightarrow> string"
  field_validators :: "string \<Rightarrow> pyval \<Rightarrow> message list"

definition DEFAULT_TIMEOUT :: int where
  "DEFAULT_TIMEOUT = 10"

definition DEFAULT_RETRIES :: int where
  "DEFAULT_RETRIES = 3"

definition DEFAULT_RETRY_DELAY :: int where
  "DEFAULT_RETRY_DELAY = 1"

definition CACHE_TIMEOUT :: nat where
  "CACHE_TIMEOUT = 86400 * 7"

text \<open>
  \<open>GeocodingService.__init__\<close>: \<open>api_key or getattr(settings, ..., None)\<close>, and
  GeocodingError when the result is falsy. The service object holds the key.
\<close>

record service =
  api_key :: string

definition GeocodingService :: "string option \<Rightarrow> world \<Rightarrow> exn + service" where
  "GeocodingService key w =
     (let k = (case key of
                 Some s \<Rightarrow> if s \<noteq> [] then Some s else settings_api_key w
               | None \<Rightarrow> settings_api_key w)
      in case k of
           Some s \<Rightarrow>
             if s \<noteq> [] then Inr \<lparr>api_key = s\<rparr>
             else Inl (GeocodingError [Lit ''OpenRouteService API key is required. Set OPENROUTESERVICE_API_KEY in settings.''])
         | None \<Rightarrow>
             Inl (GeocodingError [Lit ''OpenRouteService API key is required. Set OPENROUTESERVICE_API_KEY in settings.'']))"

text \<open>\<open>GeocodingService._determine_accuracy\<close>.\<close>

definition determine_accuracy :: "properties \<Rightarrow> string" where
  "determine_accuracy props =
     (let confidence = (case p_confidence props of None \<Rightarrow> 0 | Some x \<Rightarrow> x);
          layer = lower (case p_layer props of None \<Rightarrow> [] | Some s \<Rightarrow> s)
      in if layer \<in> set [''address'', ''venue''] \<and> confidence \<ge> 0.8 then ''high''
         else if layer = ''street'' \<or> confidence \<ge> 0.5 then ''medium''
         else ''low'')"

text \<open>\<open>GeocodingService._parse_geocoding_response\<close>.\<close>

definition parse_geocoding_response :: "feature list \<Rightarrow> string \<Rightarrow> geocode_result" where
  "parse_geocoding_response features original_address =
     (case features of
        [] \<Rightarrow> GeoFail [Lit ''No results found for address'']
      | feature # _ \<Rightarrow>
          (case f_coordinates feature of
             lon # lat # _ \<Rightarrow>
               if \<not> (- 90 \<le> lat \<and> lat \<le> 90) \<or> \<not> (- 180 \<le> lon \<and> lon \<le> 180)
               then GeoFail [Lit ''Invalid coordinate ranges: lat='', FloatV lat,
                             Lit '', lon='', FloatV lon]
               else
                 GeoOk lat lon
                   (determine_accuracy (f_properties feature))
                   (case p_label (f_properties feature) of
                      None \<Rightarrow> original_address | Some l \<Rightarrow> l)
                   (case p_confidence (f_properties feature) of None \<Rightarrow> 0 | Some x \<Rightarrow> x)
                   (case p_layer (f_properties feature) of None \<Rightarrow> ''unknown'' | Some l \<Rightarrow> l)
           | _ \<Rightarrow> GeoFail [Lit ''Invalid coordinates in response'']))"

text \<open>\<open>_get_cache_key\<close>, \<open>_get_cached_result\<close> and \<open>_cache_result\<close>.\<close>

definition get_cache_key :: "string \<Rightarrow> string \<Rightarrow> world \<Rightarrow> string" where
  "get_cache_key address country w =
     ''geocoding:'' @ md5_hexdigest w (strip (lower address) @ '':'' @ lower country)"

definition get_cached_result :: "string \<Rightarrow> string \<Rightarrow> world \<Rightarrow> geocode_result option \<times> world" where
  "get_cached_result address country w =
     (let cache_key = get_cache_key address country w
      in (cache w cache_key, w\<lparr>cache_log := cache_log w @ [CacheGet cache_key]\<rparr>))"

definition cache_result :: "string \<Rightarrow> string \<Rightarrow> geocode_result \<Rightarrow> world \<Rightarrow> world" where
  "cache_result address country result w =
     (let cache_key = get_cache_key address country w
      in w\<lparr>cache := (cache w)(cache_key \<mapsto> result),
            cache_log := cache_log w @ [CacheSet cache_key CACHE_TIMEOUT]\<rparr>)"

text \<open>\<open>time.sleep\<close> and \<open>self.session.get(BASE_URL, params=params, timeout=timeout)\<close>.\<close>

definition sleep :: "real \<Rightarrow> world \<Rightarrow> world" where
  "sleep secs w = w\<lparr>sleeps := sleeps w @ [secs]\<rparr>"

definition session_get :: "(string \<times> pyval) list \<Rightarrow> int \<Rightarrow> world \<Rightarrow> outcome \<times> world" where
  "session_get params timeout w =
     (net w (length (requests w)),
      w\<lparr>requests := requests w @ [\<lparr>req_params = params, req_timeout = timeout\<rparr>]\<rparr>)"

text \<open>
  How the attempt loop of \<open>geocode_address\<close> ends: by the \<open>return\<close> inside the \<open>try\<close>, or
  past the loop (by \<open>break\<close> or after the last attempt) with the value of \<open>last_error\<close>.
\<close>

datatype loop_end = Return geocode_result | Exhausted "message option"

text \<open>
  The loop \<open>for attempt in range(retries + 1)\<close>, by recursion over the attempt numbers
  still to run, with \<open>last_error\<close> and the world as the loop's state.
\<close>

fun attempt_loop ::
  "string \<Rightarrow> string \<Rightarrow> int \<Rightarrow> int \<Rightarrow> bool \<Rightarrow> nat list \<Rightarrow> message option \<Rightarrow> world
     \<Rightarrow> loop_end \<times> world" where
  "attempt_loop address country timeout retries use_cache [] last_error w =
     (Exhausted last_error, w)"
| "attempt_loop address country timeout retries use_cache (attempt # rest) last_error w =
     (let params = [(''text'', PStr address), (''boundary.country'', PStr country),
                    (''size'', PInt 1), (''layers'', PStr ''address,venue'')];
          (out, w1) = session_get params timeout w
      in case out of
           Body data \<Rightarrow>
             (let result = parse_geocoding_response data address
              in (Return result,
                  if success result \<and> use_cache then cache_result address country result w1
                  else w1))
         | Timeout e \<Rightarrow>
             attempt_loop address country timeout retries use_cache rest
               (Some [Lit ''Request timeout: '', Lit e])
               (if int attempt < retries then sleep (of_int DEFAULT_RETRY_DELAY) w1 else w1)
         | HTTPError resp e \<Rightarrow>
             if (case resp of None \<Rightarrow> False
                 | Some r \<Rightarrow> truthy_response r \<and> status_code r = 429)
             then
               (if int attempt < retries
                then attempt_loop address country timeout retries use_cache rest
                       (Some [Lit ''Rate limit exceeded''])
                       (sleep (of_int (DEFAULT_RETRY_DELAY * (int attempt + 1))) w1)
                else attempt_loop address country timeout retries use_cache rest
                       (Some [Lit ''Rate limit exceeded'']) w1)
             else
               (Exhausted
                  (Some [Lit ''HTTP error '',
                         (case resp of None \<Rightarrow> Lit ''unknown''
                          | Some r \<Rightarrow> if truthy_response r then IntV (status_code r)
                                      else Lit ''unknown''),
                         Lit '': '', Lit e]),
                w1)
         | RequestException e \<Rightarrow>
             attempt_loop address country timeout retries use_cache rest
               (Some [Lit ''Request error: '', Lit e])
               (if int attempt < retries then sleep (of_int DEFAULT_RETRY_DELAY) w1 else w1)
         | ParseError e \<Rightarrow>
             (Exhausted (Some [Lit ''Response parsing error: '', Lit e]), w1))"

text \<open>\<open>x or default\<close> on an optional integer argument: \<open>None\<close> and \<open>0\<close> are both falsy.\<close>

definition or_default :: "int option \<Rightarrow> int \<Rightarrow> int" where
  "or_default x d = (case x of None \<Rightarrow> d | Some v \<Rightarrow> if v \<noteq> 0 then v else d)"

text \<open>
  \<open>GeocodingService.geocode_address(address, country, timeout, retries, use_cache)\<close>.
\<close>

definition geocode_address ::
  "string \<Rightarrow> string \<Rightarrow> int option \<Rightarrow> int option \<Rightarrow> bool \<Rightarrow> world \<Rightarrow> geocode_result \<times> world" where
  "geocode_address address0 country timeout0 retries0 use_cache w =
     (if address0 = [] \<or> strip address0 = [] then
        (GeoFail [Lit ''Address cannot be empty''], w)
      else
        let address = strip address0;
            timeout = or_default timeout0 DEFAULT_TIMEOUT;
            retries = or_default retries0 DEFAULT_RETRIES;
            (cached_result, w1) =
              (if use_cache then get_cached_result address country w else (None, w))
        in case cached_result of
             Some r \<Rightarrow> (r, w1)
           | None \<Rightarrow>
               (case attempt_loop address country timeout retries use_cache
                       [0..<nat (retries + 1)] None w1 of
                  (Return result, w2) \<Rightarrow> (result, w2)
                | (Exhausted last_error, w2) \<Rightarrow>
                    (GeoFail ([Lit ''Geocoding failed after '', IntV (retries + 1),
                               Lit '' attempts: ''] @
                              (case last_error of None \<Rightarrow> [NoneV] | Some m \<Rightarrow> m)),
                     w2)))"

section \<open>The table of churches\<close>

text \<open>
  \<open>Church.objects.filter(...)\<close>: the rows that satisfy the condition, in the order of
  \<open>Meta.ordering = ['state', 'city', 'name']\<close>.
\<close>

definition objects_filter :: "(church \<Rightarrow> bool) \<Rightarrow> world \<Rightarrow> church list" where
  "objects_filter cond w = sort_key (\<lambda>r. (state r, city r, name r)) (filter cond (db w))"

text \<open>
  \<open>Model.clean_fields\<close>, field by field as Django runs it: a field declared
  \<open>blank=True\<close> whose value is empty (\<open>None\<close> or the empty string) is skipped; otherwise
  the value is converted by the field's \<open>to_python\<close>, checked by \<open>Field.validate\<close> and the
  field's validators (taken as given: \<open>field_validators\<close> of the world, on the field's name
  and the converted value), and written back to the instance when no error was found.
\<close>

definition empty_value :: "pyval \<Rightarrow> bool" where
  "empty_value v = (v = PNone \<or> v = PStr [])"

text \<open>\<open>CharField.to_python\<close> and \<open>TextField.to_python\<close>: a string or \<open>None\<close> as it is, else \<open>str(value)\<close>.\<close>

definition char_to_python :: "world \<Rightarrow> pyval \<Rightarrow> pyval" where
  "char_to_python w v =
     (case v of
        PStr s \<Rightarrow> PStr s
      | PNone \<Rightarrow> PNone
      | PBool b \<Rightarrow> PStr (if b then ''True'' else ''False'')
      | PInt i \<Rightarrow> PStr (str_int i)
      | PFloat x \<Rightarrow> PStr (repr_float w x))"

text \<open>
  \<open>BooleanField.to_python\<close> (the field is not nullable): \<open>None\<close> is the ValidationError.
\<close>

definition bool_to_python :: "pyval \<Rightarrow> bool option" where
  "bool_to_python v =
     (case v of
        PBool b \<Rightarrow> Some b
      | PInt i \<Rightarrow> if i = 1 then Some True else if i = 0 then Some False else None
      | PFloat x \<Rightarrow> if x = 1 then Some True else if x = 0 then Some False else None
      | PStr s \<Rightarrow>
          if s \<in> set [''t'', ''True'', ''1''] then Some True
          else if s \<in> set [''f'', ''False'', ''0''] then Some False
          else None
      | PNone \<Rightarrow> None)"

text \<open>
  One field: the messages found and the value the attribute holds afterwards. \<open>conv\<close> is
  the field's \<open>to_python\<close>, with \<open>None\<close> for its ValidationError.
\<close>

definition clean_field ::
  "world \<Rightarrow> string \<Rightarrow> bool \<Rightarrow> (pyval \<Rightarrow> pyval option) \<Rightarrow> pyval \<Rightarrow> message list \<times> pyval" where
  "clean_field w fname blank conv raw_value =
     (if blank \<and> empty_value raw_value then ([], raw_value)
      else
        case conv raw_value of
          None \<Rightarrow> ([[Lit fname, Lit '': invalid value'']], raw_value)
        | Some v \<Rightarrow>
            if field_validators w fname v = [] then ([], v)
            else (field_validators w fname v, raw_value))"

text \<open>
  The fields of the model in the order of their declaration. The required text fields,
  the accuracy and the coordinates hold values that \<open>to_python\<close> leaves as they are, so
  only their messages matter. The result is the list of all messages and the instance
  as \<open>clean_fields\<close> leaves it.
\<close>

definition clean_fields :: "church \<Rightarrow> world \<Rightarrow> message list \<times> church" where
  "clean_fields c w =
     (let coord = (\<lambda>x. case x of None \<Rightarrow> PNone | Some v \<Rightarrow> PFloat v);
          r_name = clean_field w ''name'' False Some (PStr (name c));
          r_street = clean_field w ''street_address'' False Some (PStr (street_address c));
          r_city = clean_field w ''city'' False Some (PStr (city c));
          r_state = clean_field w ''state'' False Some (PStr (state c));
          r_zip = clean_field w ''zip_code'' True (\<lambda>v. Some (char_to_python w v)) (zip_code c);
          r_lat = clean_field w ''latitude'' True Some (coord (latitude c));
          r_lon = clean_field w ''longitude'' True Some (coord (longitude c));
          r_phone = clean_field w ''phone'' True (\<lambda>v. Some (char_to_python w v)) (phone c);
          r_website = clean_field w ''website'' True (\<lambda>v. Some (char_to_python w v)) (website c);
          r_email = clean_field w ''email'' True (\<lambda>v. Some (char_to_python w v)) (email c);
          r_times = clean_field w ''service_times'' True (\<lambda>v. Some (char_to_python w v))
                      (service_times c);
          r_acc = clean_field w ''geocoding_accuracy'' False Some (PStr (geocoding_accuracy c));
          r_active = clean_field w ''is_active'' False
                       (\<lambda>v. map_option PBool (bool_to_python v)) (is_active c)
      in (fst r_name @ fst r_street @ fst r_city @ fst r_state @ fst r_zip @ fst r_lat @
          fst r_lon @ fst r_phone @ fst r_website @ fst r_email @ fst r_times @ fst r_acc @
          fst r_active,
          c\<lparr>zip_code := snd r_zip, phone := snd r_phone, website := snd r_website,
            email := snd r_email, service_times := snd r_times, is_active := snd r_active\<rparr>))"

text \<open>
  \<open>Model.full_clean\<close>: Django runs \<open>clean_fields\<close> and then \<open>clean\<close> (also when the
  fields failed), and raises one ValidationError with every message collected. The
  model declares no unique constraint. The result, when there is no message, is the
  instance with the converted values.
\<close>

definition full_clean :: "church \<Rightarrow> world \<Rightarrow> exn + church" where
  "full_clean c w =
     (let (field_errors, c1) = clean_fields c w;
          errors = field_errors @
                   (case clean c1 of Inl (ValidationError ms) \<Rightarrow> ms | _ \<Rightarrow> [])
      in if errors \<noteq> [] then Inl (ValidationError errors) else Inr c1)"

definition next_pk :: "church list \<Rightarrow> nat" where
  "next_pk rows = Suc (fold max (map (\<lambda>r. case pk r of None \<Rightarrow> 0 | Some i \<Rightarrow> i) rows) 0)"

text \<open>
  The columns declared without \<open>null=True\<close> are NOT NULL: writing \<open>None\<close> to one of them
  raises IntegrityError. (The required text fields and the accuracy are strings here.)
\<close>

definition not_null_violation :: "church \<Rightarrow> bool" where
  "not_null_violation c =
     (PNone \<in> set [zip_code c, phone c, website c, email c, service_times c, is_active c])"

text \<open>
  \<open>Church.save\<close>: \<open>full_clean\<close>, then the row is written with the values \<open>full_clean\<close>
  left on the instance: inserted under a fresh key when the instance has none (or its
  key is not in the table), updated in place otherwise.
\<close>

definition save :: "church \<Rightarrow> world \<Rightarrow> exn + (church \<times> world)" where
  "save c w =
     (case full_clean c w of
        Inl e \<Rightarrow> Inl e
      | Inr c0 \<Rightarrow>
          if not_null_violation c0 then
            Inl (IntegrityError [Lit ''NOT NULL constraint failed''])
          else
            (case pk c0 of
               None \<Rightarrow>
                 (let c1 = c0\<lparr>pk := Some (next_pk (db w))\<rparr>
                  in Inr (c1, w\<lparr>db := db w @ [c1]\<rparr>))
             | Some i \<Rightarrow>
                 if list_ex (\<lambda>r. pk r = Some i) (db w)
                 then Inr (c0, w\<lparr>db := map (\<lambda>r. if pk r = Some i then c0 else r) (db w)\<rparr>)
                 else Inr (c0, w\<lparr>db := db w @ [c0]\<rparr>)))"

text \<open>
  \<open>Church.find_nearby\<close> without PostGIS: the bounding box. In exact arithmetic the
  division raises ZeroDivisionError when the cosine is zero.
\<close>

definition in_range :: "real option \<Rightarrow> real \<Rightarrow> real \<Rightarrow> bool" where
  "in_range x lo hi = (case x of None \<Rightarrow> False | Some v \<Rightarrow> lo \<le> v \<and> v \<le> hi)"

definition find_nearby :: "real \<Rightarrow> real \<Rightarrow> real \<Rightarrow> world \<Rightarrow> exn + church list" where
  "find_nearby lat lng radius_km w =
     (if 111.32 * cos (radians lat) = 0 then Inl ZeroDivisionError
      else
        let lat_delta = radius_km / 111.32;
            lon_delta = radius_km / (111.32 * cos (radians lat))
        in Inr (objects_filter
                  (\<lambda>r. in_range (latitude r) (lat - lat_delta) (lat + lat_delta) \<and>
                       in_range (longitude r) (lng - lon_delta) (lng + lon_delta) \<and>
                       is_active r = PBool True)
                  w))"

section \<open>The church data service (churches/services.py, ChurchDataService)\<close>

record data_service =
  geocoding_service :: "service option"

text \<open>
  The dictionary \<open>geocode_church\<close> returns: \<open>success\<close>, \<open>message\<close>, whether the key
  \<open>skipped\<close> is there (it is only ever set to true), and the coordinates and accuracy
  when they are reported.
\<close>

record church_result =
  gc_success :: bool
  gc_message :: message
  gc_skipped :: bool
  gc_coordinates :: "(real \<times> real \<times> string) option"

text \<open>
  \<open>if not self.geocoding_service: self.geocoding_service = GeocodingService()\<close>.
\<close>

definition ensure_service :: "data_service \<Rightarrow> world \<Rightarrow> exn + data_service" where
  "ensure_service self w =
     (case geocoding_service self of
        Some s \<Rightarrow> Inr self
      | None \<Rightarrow>
          (case GeocodingService None w of
             Inl e \<Rightarrow> Inl e
           | Inr s \<Rightarrow> Inr (self\<lparr>geocoding_service := Some s\<rparr>)))"

text \<open>
  \<open>ChurchDataService.geocode_church(church, force_update)\<close>. The result comes with the
  service object, the church instance and the world as the call leaves them; an
  exception that the method does not catch is the result \<open>Inl\<close>. The method catches
  ValueError (which only \<open>set_coordinates\<close> raises) and ValidationError; after a save
  that failed validation the instance holds the coordinates and what \<open>clean_fields\<close>
  wrote back.
\<close>

definition geocode_church ::
  "data_service \<Rightarrow> church \<Rightarrow> bool \<Rightarrow> world
     \<Rightarrow> exn + (church_result \<times> data_service \<times> church \<times> world)" where
  "geocode_church self c force_update w =
     (if has_coordinates c \<and> \<not> force_update then
        Inr (\<lparr>gc_success = True, gc_message = [Lit ''Church already has coordinates''],
              gc_skipped = True, gc_coordinates = None\<rparr>, self, c, w)
      else
        case ensure_service self w of
          Inl e \<Rightarrow> Inl e
        | Inr self1 \<Rightarrow>
            (case full_address c of
               Inl e \<Rightarrow> Inl e
             | Inr addr \<Rightarrow>
                 (let (result, w1) = geocode_address addr ''US'' None None True w
                  in case result of
                       GeoOk la lo acc fa cf ly \<Rightarrow>
                         (case set_coordinates c la lo acc of
                            Inl e \<Rightarrow>
                              Inr (\<lparr>gc_success = False,
                                    gc_message = Lit ''Error saving coordinates: '' # exn_str e,
                                    gc_skipped = False, gc_coordinates = None\<rparr>, self1, c, w1)
                          | Inr c1 \<Rightarrow>
                              (case save c1 w1 of
                                 Inl (ValidationError ms) \<Rightarrow>
                                   Inr (\<lparr>gc_success = False,
                                         gc_message = Lit ''Error saving coordinates: '' #
                                                      exn_str (ValidationError ms),
                                         gc_skipped = False, gc_coordinates = None\<rparr>,
                                        self1, snd (clean_fields c1 w1), w1)
                               | Inl e \<Rightarrow> Inl e
                               | Inr (c2, w2) \<Rightarrow>
                                   Inr (\<lparr>gc_success = True,
                                         gc_message = [Lit ''Successfully geocoded to ('', FloatV la,
                                                       Lit '', '', FloatV lo, Lit '')''],
                                         gc_skipped = False,
                                         gc_coordinates = Some (la, lo, acc)\<rparr>, self1, c2, w2)))
                     | GeoFail err \<Rightarrow>
                         Inr (\<lparr>gc_success = False,
                               gc_message = Lit ''Geocoding failed: '' # err,
                               gc_skipped = False, gc_coordinates = None\<rparr>, self1, c, w1))))"

text \<open>One row of import data: a dictionary from keys to values.\<close>

type_synonym row = "string \<Rightarrow> pyval option"

text \<open>\<open>data.get(key, default)\<close> and \<open>data.get(key, '').strip()\<close>.\<close>

definition dict_get :: "row \<Rightarrow> string \<Rightarrow> pyval \<Rightarrow> pyval" where
  "dict_get data key dflt = (case data key of None \<Rightarrow> dflt | Some v \<Rightarrow> v)"

definition get_stripped :: "row \<Rightarrow> string \<Rightarrow> exn + string" where
  "get_stripped data key =
     (case dict_get data key (PStr []) of
        PStr s \<Rightarrow> Inr (strip s)
      | _ \<Rightarrow> Inl AttributeError)"

text \<open>
  \<open>Church.objects.get_or_create(name, street_address, city, state, defaults)\<close>: the one
  matching row, or a new instance saved; MultipleObjectsReturned when several match.
  A new instance has no coordinates and the default accuracy \<open>medium\<close>.
\<close>

definition get_or_create ::
  "string \<Rightarrow> string \<Rightarrow> string \<Rightarrow> string \<Rightarrow> row \<Rightarrow> world \<Rightarrow> exn + ((church \<times> bool) \<times> world)" where
  "get_or_create n sa ci st data w =
     (case filter (\<lambda>r. name r = n \<and> street_address r = sa \<and> city r = ci \<and> state r = st) (db w) of
        [] \<Rightarrow>
          (case save \<lparr>pk = None, name = n, street_address = sa, city = ci, state = st,
                      zip_code = dict_get data ''zip_code'' (PStr []),
                      latitude = None, longitude = None,
                      phone = dict_get data ''phone'' (PStr []),
                      website = dict_get data ''website'' (PStr []),
                      email = dict_get data ''email'' (PStr []),
                      service_times = dict_get data ''service_times'' (PStr []),
                      geocoding_accuracy = ''medium'',
                      is_active = dict_get data ''is_active'' (PBool True)\<rparr> w of
             Inl e \<Rightarrow> Inl e
           | Inr (c, w1) \<Rightarrow> Inr ((c, True), w1))
      | [r] \<Rightarrow> Inr ((r, False), w)
      | _ \<Rightarrow> Inl MultipleObjectsReturned)"

text \<open>
  The body of the import loop for one row, inside its \<open>try\<close>: the row is skipped for
  missing required fields (\<open>Missing\<close>, the \<open>continue\<close>), created or updated; an exception
  is the result \<open>Inl\<close>, which the loop catches.
\<close>

datatype row_status = Missing | Created | Updated

definition import_row :: "row \<Rightarrow> world \<Rightarrow> exn + (row_status \<times> world)" where
  "import_row data w =
     (case get_stripped data ''name'' of Inl e \<Rightarrow> Inl e | Inr n \<Rightarrow>
      case get_stripped data ''street_address'' of Inl e \<Rightarrow> Inl e | Inr sa \<Rightarrow>
      case get_stripped data ''city'' of Inl e \<Rightarrow> Inl e | Inr ci \<Rightarrow>
      case get_stripped data ''state'' of Inl e \<Rightarrow> Inl e | Inr st \<Rightarrow>
        if \<not> list_all (\<lambda>s. s \<noteq> []) [n, sa, ci, st] then Inr (Missing, w)
        else
          case get_or_create n sa ci st data w of
            Inl e \<Rightarrow> Inl e
          | Inr ((c, was_created), w1) \<Rightarrow>
              if was_created then Inr (Created, w1)
              else
                case save (c\<lparr>zip_code := dict_get data ''zip_code'' (zip_code c),
                              phone := dict_get data ''phone'' (phone c),
                              website := dict_get data ''website'' (website c),
                              email := dict_get data ''email'' (email c),
                              service_times := dict_get data ''service_times'' (service_times c),
                              is_active := dict_get data ''is_active'' (is_active c)\<rparr>) w1 of
                  Inl e \<Rightarrow> Inl e
                | Inr (c1, w2) \<Rightarrow> Inr (Updated, w2))"

text \<open>The counters of the import loop and the list \<open>failed_records\<close>.\<close>

record counters =
  created :: nat
  updated :: nat
  failed :: nat
  failed_records :: "(nat \<times> row \<times> message) list"

text \<open>The loop \<open>for i, data in enumerate(church_data, 1)\<close>.\<close>

fun import_loop :: "(nat \<times> row) list \<Rightarrow> counters \<Rightarrow> world \<Rightarrow> counters \<times> world" where
  "import_loop [] k w = (k, w)"
| "import_loop ((i, data) # rest) k w =
     (case import_row data w of
        Inr (Missing, w1) \<Rightarrow>
          import_loop rest
            (k\<lparr>failed := failed k + 1,
               failed_records := failed_records k @
                 [(i, data, [Lit ''Missing required fields (name, street_address, city, state)''])]\<rparr>)
            w1
      | Inr (Created, w1) \<Rightarrow> import_loop rest (k\<lparr>created := created k + 1\<rparr>) w1
      | Inr (Updated, w1) \<Rightarrow> import_loop rest (k\<lparr>updated := updated k + 1\<rparr>) w1
      | Inl e \<Rightarrow>
          import_loop rest
            (k\<lparr>failed := failed k + 1,
               failed_records := failed_records k @ [(i, data, exn_str e)]\<rparr>)
            w)"

text \<open>
  The summary \<open>import_church_data\<close> returns; \<open>s_failed_records\<close> is \<open>None\<close> when the key is
  not in the dictionary.
\<close>

record summary =
  s_success :: bool
  s_message :: message
  s_total :: nat
  s_created :: nat
  s_updated :: nat
  s_failed :: nat
  s_failed_records :: "(nat \<times> row \<times> message) list option"

definition import_church_data :: "row list \<Rightarrow> world \<Rightarrow> summary \<times> world" where
  "import_church_data church_data w =
     (if church_data = [] then
        (\<lparr>s_success = False, s_message = [Lit ''No church data provided''],
          s_total = 0, s_created = 0, s_updated = 0, s_failed = 0,
          s_failed_records = None\<rparr>, w)
      else
        let total = length church_data;
            (k, w1) = import_loop (zip [1..<Suc total] church_data)
                        \<lparr>created = 0, updated = 0, failed = 0, failed_records = []\<rparr> w
        in (\<lparr>s_success = True,
             s_message = [Lit ''Import completed: '', IntV (int (created k)), Lit '' created, '',
                          IntV (int (updated k)), Lit '' updated, '',
                          IntV (int (failed k)), Lit '' failed''],
             s_total = total, s_created = created k, s_updated = updated k,
             s_failed = failed k, s_failed_records = Some (failed_records k)\<rparr>, w1))"

section \<open>The search view (churches/views.py, ChurchSearchAPIView.get_queryset)\<close>

text \<open>The query parameters of the request; \<open>None\<close> is a parameter that was not sent.\<close>

record query_params =
  qp_q :: "string option"
  qp_lat :: "string option"
  qp_lng :: "string option"
  qp_radius :: "string option"

text \<open>
  The attribute \<open>distance\<close> of a returned church: never assigned, or assigned the value
  of \<open>distance_to_point\<close>.
\<close>

datatype annotation = NoDistance | Distance "real option"

text \<open>The loop \<open>for church in nearby_churches: church.distance = ...\<close>.\<close>

fun add_distance :: "real \<Rightarrow> real \<Rightarrow> church list \<Rightarrow> exn + (church \<times> annotation) list" where
  "add_distance lat lng [] = Inr []"
| "add_distance lat lng (c # cs) =
     (case distance_to_point c lat lng of
        Inl e \<Rightarrow> Inl e
      | Inr d \<Rightarrow>
          (case add_distance lat lng cs of
             Inl e \<Rightarrow> Inl e
           | Inr rest \<Rightarrow> Inr ((c, Distance d) # rest)))"

definition nearby_with_distance ::
  "real \<Rightarrow> real \<Rightarrow> real \<Rightarrow> world \<Rightarrow> exn + (church \<times> annotation) list" where
  "nearby_with_distance lat lng radius w =
     (case find_nearby lat lng radius w of
        Inl e \<Rightarrow> Inl e
      | Inr nearby_churches \<Rightarrow> add_distance lat lng nearby_churches)"

text \<open>\<open>field__icontains=query\<close>: containment without regard to (ASCII) case.\<close>

definition icontains :: "string \<Rightarrow> string \<Rightarrow> bool" where
  "icontains field query = contains (lower field) (lower query)"

text \<open>
  \<open>get_queryset\<close>. The coordinate branch catches ValueError (from \<open>float\<close> or from the
  distance) and answers the empty set; the text branch catches GeocodingError only.
\<close>

definition get_queryset ::
  "query_params \<Rightarrow> world \<Rightarrow> (exn + (church \<times> annotation) list) \<times> world" where
  "get_queryset qp w =
     (let query = (case qp_q qp of None \<Rightarrow> [] | Some s \<Rightarrow> s);
          radius = (case qp_radius qp of
                      None \<Rightarrow> 50
                    | Some s \<Rightarrow> (case float_of_str w s of None \<Rightarrow> 50 | Some x \<Rightarrow> x));
          both = (case (qp_lat qp, qp_lng qp) of
                    (Some a, Some b) \<Rightarrow> if a \<noteq> [] \<and> b \<noteq> [] then Some (a, b) else None
                  | _ \<Rightarrow> None)
      in case both of
           Some (a, b) \<Rightarrow>
             (case (float_of_str w a, float_of_str w b) of
                (Some lat, Some lng) \<Rightarrow>
                  (case nearby_with_distance lat lng radius w of
                     Inl (ValueError m) \<Rightarrow> (Inr [], w)
                   | Inl e \<Rightarrow> (Inl e, w)
                   | Inr nearby_churches \<Rightarrow> (Inr nearby_churches, w))
              | _ \<Rightarrow> (Inr [], w))
         | None \<Rightarrow>
             if query \<noteq> [] then
               (let text_results =
                      objects_filter
                        (\<lambda>r. is_active r = PBool True \<and>
                             (icontains (name r) query \<or> icontains (city r) query \<or>
                              icontains (state r) query \<or> icontains (street_address r) query))
                        w
                in if text_results \<noteq> [] then
                     (Inr (map (\<lambda>r. (r, NoDistance)) text_results), w)
                   else
                     case GeocodingService None w of
                       Inl e \<Rightarrow> (Inr [], w)
                     | Inr svc \<Rightarrow>
                         (let (geocode_result, w1) = geocode_address query ''US'' None None True w
                          in case geocode_result of
                               GeoOk lat lng acc fa cf ly \<Rightarrow>
                                 (case nearby_with_distance lat lng radius w1 of
                                    Inl e \<Rightarrow> (Inl e, w1)
                                  | Inr nearby_churches \<Rightarrow> (Inr nearby_churches, w1))
                             | GeoFail err \<Rightarrow> (Inr [], w1)))
             else (Inr [], w))"

section \<open>Definitions that follow the specification's words\<close>

text \<open>
  The accuracy tiers as the specification words them, on a layer and a confidence taken
  as they are given: high for layer address or venue with confidence at least 0.8,
  else medium for layer street or confidence at least 0.5, else low.
\<close>

definition accuracy_by_spec :: "string \<Rightarrow> real \<Rightarrow> string" where
  "accuracy_by_spec layer confidence =
     (if (layer = ''address'' \<or> layer = ''venue'') \<and> confidence \<ge> 0.8 then ''high''
      else if layer = ''street'' \<or> confidence \<ge> 0.5 then ''medium''
      else ''low'')"

text \<open>
  The invariant of the coordinate pair as the specification words it: both absent, or
  both present with the latitude in -90..90 and the longitude in -180..180.
\<close>

definition coordinate_invariant :: "church \<Rightarrow> bool" where
  "coordinate_invariant c =
     (case (latitude c, longitude c) of
        (None, None) \<Rightarrow> True
      | (Some la, Some lo) \<Rightarrow> - 90 \<le> la \<and> la \<le> 90 \<and> - 180 \<le> lo \<and> lo \<le> 180
      | _ \<Rightarrow> False)"

text \<open>
  A row lacks a required field, in the specification's words: one of name,
  street_address, city and state is absent or blank after trimming.
\<close>

definition missing_required :: "row \<Rightarrow> bool" where
  "missing_required data =
     list_ex (\<lambda>key. case data key of
                      None \<Rightarrow> True
                    | Some (PStr s) \<Rightarrow> strip s = []
                    | Some v \<Rightarrow> False)
       [''name'', ''street_address'', ''city'', ''state'']"

text \<open>
  The great-circle distance in kilometres as the specification words it: the Haversine
  formula with Earth radius 6371 km.
\<close>

definition great_circle_km :: "real \<Rightarrow> real \<Rightarrow> real \<Rightarrow> real \<Rightarrow> real" where
  "great_circle_km lat1 lon1 lat2 lon2 =
     2 * arcsin (sqrt (haversine_a (radians lat1) (radians lon1) (radians lat2) (radians lon2)))
       * 6371"

section \<open>Concrete worlds for the examples\<close>

text \<open>
  A world with an empty table, an empty cache, a configured API key and a network on
  which every request times out; the same with a network that answers every request
  with status 429, as a \<open>requests.Response\<close> and as the Mock of the tests.
\<close>

definition world0 :: world where
  "world0 = \<lparr>net = (\<lambda>k. Timeout ''timed out''), requests = [], sleeps = [],
             cache = (\<lambda>k. None), cache_log = [], db = [],
             settings_api_key = Some ''key'', md5_hexdigest = (\<lambda>s. s),
             float_of_str = (\<lambda>s. None), repr_float = (\<lambda>x. []),
             field_validators = (\<lambda>f v. [])\<rparr>"

definition world_429 :: world where
  "world_429 =
     world0\<lparr>net := (\<lambda>k. HTTPError (Some (Response 429)) ''429 Client Error: Too Many Requests'')\<rparr>"

definition world_mock_429 :: world where
  "world_mock_429 = world0\<lparr>net := (\<lambda>k. HTTPError (Some (MockResponse 429)) [])\<rparr>"

text \<open>
  A church without coordinates, the same church with coordinates, and a data service
  that has not created its geocoding service yet.
\<close>

definition church0 :: church where
  "church0 = \<lparr>pk = Some 1, name = ''First Church'', street_address = ''1 Main St'',
              city = ''Columbus'', state = ''OH'', zip_code = PStr ''43004'',
              latitude = None, longitude = None, phone = PStr [], website = PStr [],
              email = PStr [], service_times = PStr [], geocoding_accuracy = ''medium'',
              is_active = PBool True\<rparr>"

definition church1 :: church where
  "church1 = church0\<lparr>latitude := Some 40, longitude := Some (- 83)\<rparr>"

definition data_service0 :: data_service where
  "data_service0 = \<lparr>geocoding_service = None\<rparr>"

text \<open>Two rows of import data: a complete one, and the same with an empty name.\<close>

definition row_valid :: row where
  "row_valid = [''name'' \<mapsto> PStr ''First Church'', ''street_address'' \<mapsto> PStr ''1 Main St'',
                ''city'' \<mapsto> PStr ''Columbus'', ''state'' \<mapsto> PStr ''OH'']"

definition row_empty_name :: row where
  "row_empty_name = row_valid(''name'' \<mapsto> PStr [])"

text \<open>The world whose table holds the one church with coordinates.\<close>

definition world1 :: world where
  "world1 = world0\<lparr>db := [church1]\<rparr>"

text \<open>
  A church near a corner of the bounding box of the search around (40.7128, -74.0060)
  with radius 10, the world whose table holds it and in which \<open>float\<close> parses the three
  parameters, and the request of that search.
\<close>

definition church2 :: church where
  "church2 = church0\<lparr>latitude := Some 40.8, longitude := Some (- 73.92)\<rparr>"

definition world2 :: world where
  "world2 = world0\<lparr>db := [church2],
              float_of_str := (\<lambda>s. if s = ''40.7128'' then Some 40.7128
                                    else if s = ''-74.0060'' then Some (- 74.0060)
                                    else if s = ''10'' then Some 10 else None)\<rparr>"

definition search_request :: query_params where
  "search_request = \<lparr>qp_q = None, qp_lat = Some ''40.7128'', qp_lng = Some ''-74.0060'',
                      qp_radius = Some ''10''\<rparr>"

section \<open>Verified properties\<close>

subsection \<open>Accuracy classification\<close>

lemma lower_ADDRESS: "lower ''ADDRESS'' = ''address''"
  by code_simp

lemma lower_lowercase_words:
  "lower ''address'' = ''address''" "lower ''venue'' = ''venue''"
  "lower ''street'' = ''street''" "lower ''locality'' = ''locality''"
  by code_simp+

text \<open>
  C1, as stated, fails: the claim classifies the layer as the provider sent it, the code
  lower-cases it first. The layer \<open>ADDRESS\<close> with confidence 0.9 is classified high by
  \<open>_determine_accuracy\<close>, and medium by the tiers read on the layer as given.
\<close>

theorem determine_accuracy_counterexample:
  "determine_accuracy \<lparr>p_confidence = Some 0.9, p_layer = Some ''ADDRESS'', p_label = None\<rparr> = ''high''
   \<and> accuracy_by_spec ''ADDRESS'' 0.9 = ''medium''"
  by (simp add: determine_accuracy_def accuracy_by_spec_def lower_ADDRESS)

text \<open>
  C1, amended: for every properties dictionary, \<open>_determine_accuracy\<close> returns the tier of
  the specification computed on the lower-cased layer (the empty string when the key is
  absent) and the confidence (0 when the key is absent): high if the lower-cased layer
  is address or venue and the confidence is at least 0.8, else medium if it is street or
  the confidence is at least 0.5, else low. The high tier is tested first: layer venue
  with confidence 0.8 is high.
\<close>

theorem determine_accuracy_tiers:
  "determine_accuracy \<lparr>p_confidence = cf, p_layer = ly, p_label = lb\<rparr> =
     accuracy_by_spec (lower (case ly of None \<Rightarrow> [] | Some s \<Rightarrow> s))
                      (case cf of None \<Rightarrow> 0 | Some x \<Rightarrow> x)
   \<and> determine_accuracy \<lparr>p_confidence = Some 0.8, p_layer = Some ''venue'', p_label = lb\<rparr> = ''high''"
  by (simp add: determine_accuracy_def accuracy_by_spec_def lower_lowercase_words)

theorem determine_accuracy_tiers_witness:
  "determine_accuracy \<lparr>p_confidence = Some 0.9, p_layer = Some ''address'', p_label = None\<rparr> = ''high''
   \<and> determine_accuracy \<lparr>p_confidence = Some 0.6, p_layer = Some ''street'', p_label = None\<rparr> = ''medium''
   \<and> determine_accuracy \<lparr>p_confidence = Some 0.3, p_layer = Some ''locality'', p_label = None\<rparr> = ''low''"
  using determine_accuracy_tiers [of "Some 0.9" "Some ''address''" None]
        determine_accuracy_tiers [of "Some 0.6" "Some ''street''" None]
        determine_accuracy_tiers [of "Some 0.3" "Some ''locality''" None]
  by (simp add: accuracy_by_spec_def lower_lowercase_words)

subsection \<open>The geocoding client: blank addresses, defaults, the attempt loop\<close>

lemma all_dropWhile: "(\<forall>x\<in>set (dropWhile P s). P x) = (\<forall>x\<in>set s. P x)"
  by (induction s) auto

lemma strip_empty_iff: "strip s = [] \<longleftrightarrow> list_all isspace s"
  by (simp add: strip_def dropWhile_eq_Nil_conv list_all_iff all_dropWhile)

text \<open>
  C7: for an address that is empty or holds only whitespace, \<open>geocode_address\<close> returns the
  failure "Address cannot be empty" and leaves the world as it was: no request is
  issued, no sleep, and the cache is neither read nor written (the cache log is part of
  the world).
\<close>

theorem geocode_address_blank:
  "list_all isspace address \<Longrightarrow>
   geocode_address address country timeout retries use_cache w =
     (GeoFail [Lit ''Address cannot be empty''], w)"
  by (simp add: geocode_address_def strip_empty_iff)

theorem geocode_address_blank_witness:
  "list_all isspace ''   '' \<and> list_all isspace [] \<and>
   geocode_address ''   '' ''US'' None None True world0 =
     (GeoFail [Lit ''Address cannot be empty''], world0) \<and>
   geocode_address [] ''US'' None None True world0 =
     (GeoFail [Lit ''Address cannot be empty''], world0)"
  using geocode_address_blank [of "''   ''" "''US''" None None True world0]
        geocode_address_blank [of "[]" "''US''" None None True world0]
  by (simp add: isspace_def)

text \<open>Every pass through the loop issues one request, so a loop issues at most one per attempt.\<close>

lemma attempt_loop_requests_le:
  "length (requests (snd (attempt_loop a c t r uc atts le w))) \<le> length (requests w) + length atts"
proof (induction atts arbitrary: le w)
  case Nil
  then show ?case by simp
next
  case (Cons att rest)
  show ?case
    apply (simp add: session_get_def Let_def sleep_def cache_result_def split: outcome.split)
    apply (intro conjI allI impI)
    apply (rule order_trans[OF Cons.IH], simp)+
    done
qed

lemma geocode_requests_le:
  "length (requests (snd (geocode_address a c t r uc w)))
     \<le> length (requests w) + nat (or_default r DEFAULT_RETRIES + 1)"
proof -
  have le: "length (requests (snd (attempt_loop a' c t' r' uc [0..<n] None w')))
            \<le> length (requests w') + n" for a' t' r' n w'
    using attempt_loop_requests_le [of a' c t' r' uc "[0..<n]" None w'] by simp
  show ?thesis
  proof (cases "a = [] \<or> strip a = []")
    case True
    then show ?thesis by (auto simp: geocode_address_def)
  next
    case False
    show ?thesis
    proof (cases "uc \<and> cache w (get_cache_key (strip a) c w) \<noteq> None")
      case True
      with False show ?thesis
        by (auto simp: geocode_address_def Let_def get_cached_result_def)
    next
      case miss: False
      define w1 where "w1 = (if uc then snd (get_cached_result (strip a) c w) else w)"
      have rq: "requests w1 = requests w"
        by (simp add: w1_def get_cached_result_def Let_def)
      define n where "n = nat (or_default r DEFAULT_RETRIES + 1)"
      define res where "res = attempt_loop (strip a) c (or_default t DEFAULT_TIMEOUT)
                                (or_default r DEFAULT_RETRIES) uc [0..<n] None w1"
      have eq: "snd (geocode_address a c t r uc w) = snd res"
        using False miss
        by (auto simp: geocode_address_def Let_def get_cached_result_def w1_def res_def n_def
                 split: prod.split loop_end.split)
      have "length (requests (snd res)) \<le> length (requests w1) + n"
        unfolding res_def by (rule le)
      then show ?thesis by (simp add: eq rq n_def)
    qed
  qed
qed

lemmas geocode_eval =
  geocode_address_def strip_def isspace_def or_default_def DEFAULT_TIMEOUT_def
  DEFAULT_RETRIES_def DEFAULT_RETRY_DELAY_def get_cached_result_def get_cache_key_def
  session_get_def sleep_def cache_result_def Let_def

lemma upt_0_4: "[0..<4] = [0, 1, 2, Suc 2]"
  by code_simp

lemma timeouts_eval:
  "fst (geocode_address ''1 Main St'' ''US'' (Some 0) (Some 0) True world0) =
     GeoFail [Lit ''Geocoding failed after '', IntV 4, Lit '' attempts: '',
              Lit ''Request timeout: '', Lit ''timed out'']"
  "map req_timeout
     (requests (snd (geocode_address ''1 Main St'' ''US'' (Some 0) (Some 0) True world0))) =
     [10, 10, 10, 10]"
  "sleeps (snd (geocode_address ''1 Main St'' ''US'' (Some 0) (Some 0) True world0)) = [1, 1, 1]"
  by (simp_all add: geocode_eval world0_def upt_0_4)

text \<open>
  C9: an explicit 0 for \<open>timeout\<close> or \<open>retries\<close> is replaced by the default (10 seconds,
  3 retries): the call is the call with the default, whatever the other arguments and
  the world. With \<open>retries=0\<close> at most four requests are issued, and four are when every
  request times out, each sent with the timeout 10 although 0 was asked for.
\<close>

theorem geocode_address_zero_is_default:
  "geocode_address a c (Some 0) r uc w = geocode_address a c (Some 10) r uc w
   \<and> geocode_address a c (Some 0) r uc w = geocode_address a c None r uc w
   \<and> geocode_address a c t (Some 0) uc w = geocode_address a c t (Some 3) uc w
   \<and> geocode_address a c t (Some 0) uc w = geocode_address a c t None uc w
   \<and> length (requests (snd (geocode_address a c t (Some 0) uc w))) \<le> length (requests w) + 4
   \<and> map req_timeout
        (requests (snd (geocode_address ''1 Main St'' ''US'' (Some 0) (Some 0) True world0))) =
        [10, 10, 10, 10]"
proof -
  have "length (requests (snd (geocode_address a c t (Some 0) uc w))) \<le> length (requests w) + 4"
    using geocode_requests_le [of a c t "Some 0" uc w]
    by (simp add: or_default_def DEFAULT_RETRIES_def)
  moreover have
    "geocode_address a c (Some 0) r uc w = geocode_address a c (Some 10) r uc w"
    "geocode_address a c (Some 0) r uc w = geocode_address a c None r uc w"
    "geocode_address a c t (Some 0) uc w = geocode_address a c t (Some 3) uc w"
    "geocode_address a c t (Some 0) uc w = geocode_address a c t None uc w"
    by (simp_all add: geocode_address_def or_default_def DEFAULT_TIMEOUT_def DEFAULT_RETRIES_def)
  ultimately show ?thesis
    using timeouts_eval(2) by simp
qed

theorem geocode_address_zero_is_default_witness:
  "length (requests (snd (geocode_address ''1 Main St'' ''US'' (Some 0) (Some 0) True world0))) \<le> 4
   \<and> geocode_address ''1 Main St'' ''US'' (Some 0) (Some 0) True world0 =
      geocode_address ''1 Main St'' ''US'' (Some 0) None True world0"
proof -
  note inst = geocode_address_zero_is_default
            [where a = "''1 Main St''" and c = "''US''" and t = "Some 0" and r = "Some 0"
               and uc = True and w = world0]
  have rq: "requests world0 = []"
    by (simp add: world0_def)
  have le: "length (requests (snd (geocode_address ''1 Main St'' ''US'' (Some 0) (Some 0) True world0)))
              \<le> length (requests world0) + 4"
    using inst by blast
  have eq: "geocode_address ''1 Main St'' ''US'' (Some 0) (Some 0) True world0 =
            geocode_address ''1 Main St'' ''US'' (Some 0) None True world0"
    using inst by blast
  from le rq have "length (requests (snd (geocode_address ''1 Main St'' ''US'' (Some 0) (Some 0) True world0))) \<le> 4"
    by simp
  with eq show ?thesis by blast
qed

text \<open>
  The rate-limit branch is taken for the Mock of the tests: every attempt is answered
  429, four requests are issued and the waits between them grow linearly (1, 2, 3).
\<close>

lemma geocode_address_rate_limit_mock:
  "fst (geocode_address ''1 Main St'' ''US'' None None True world_mock_429) =
     GeoFail [Lit ''Geocoding failed after '', IntV 4, Lit '' attempts: '',
              Lit ''Rate limit exceeded'']"
  "length (requests (snd (geocode_address ''1 Main St'' ''US'' None None True world_mock_429))) = 4"
  "sleeps (snd (geocode_address ''1 Main St'' ''US'' None None True world_mock_429)) = [1, 2, 3]"
  by (simp_all add: geocode_eval world0_def world_mock_429_def upt_0_4)

text \<open>
  For a \<open>requests.Response\<close> with an error status the test \<open>e.response and ...\<close> is false,
  so the loop takes the branch of the other HTTP errors and stops after this request,
  whatever the status: 429 included.
\<close>

lemma attempt_loop_real_error_response_stops:
  "net w (length (requests w)) = HTTPError (Some (Response s)) e \<Longrightarrow> 400 \<le> s \<Longrightarrow> s < 600 \<Longrightarrow>
   fst (attempt_loop a c t r uc (att # rest) le w) =
     Exhausted (Some [Lit ''HTTP error '', Lit ''unknown'', Lit '': '', Lit e])
   \<and> length (requests (snd (attempt_loop a c t r uc (att # rest) le w))) = Suc (length (requests w))
   \<and> sleeps (snd (attempt_loop a c t r uc (att # rest) le w)) = sleeps w"
  by (simp add: session_get_def)

text \<open>
  The other branches of the loop, for any attempt of any call: a timeout or another
  request exception is followed by a wait of one second when a retry is left and by the
  next attempt; another HTTP error (here: no response object, or a truthy one with a
  status other than 429) and a parse error end the loop after this request.
\<close>

lemma attempt_loop_timeout_retried:
  "net w (length (requests w)) = Timeout e \<Longrightarrow>
   attempt_loop a c t r uc (att # rest) le w =
     attempt_loop a c t r uc rest (Some [Lit ''Request timeout: '', Lit e])
       (if int att < r
        then sleep 1 (snd (session_get [(''text'', PStr a), (''boundary.country'', PStr c),
                                         (''size'', PInt 1), (''layers'', PStr ''address,venue'')] t w))
        else snd (session_get [(''text'', PStr a), (''boundary.country'', PStr c),
                               (''size'', PInt 1), (''layers'', PStr ''address,venue'')] t w))"
  by (simp add: session_get_def DEFAULT_RETRY_DELAY_def)

lemma attempt_loop_request_error_retried:
  "net w (length (requests w)) = RequestException e \<Longrightarrow>
   attempt_loop a c t r uc (att # rest) le w =
     attempt_loop a c t r uc rest (Some [Lit ''Request error: '', Lit e])
       (if int att < r
        then sleep 1 (snd (session_get [(''text'', PStr a), (''boundary.country'', PStr c),
                                         (''size'', PInt 1), (''layers'', PStr ''address,venue'')] t w))
        else snd (session_get [(''text'', PStr a), (''boundary.country'', PStr c),
                               (''size'', PInt 1), (''layers'', PStr ''address,venue'')] t w))"
  by (simp add: session_get_def DEFAULT_RETRY_DELAY_def)

lemma attempt_loop_other_http_error_stops:
  "net w (length (requests w)) = HTTPError resp e \<Longrightarrow>
   resp = None \<or> (\<exists>x. resp = Some x \<and> truthy_response x \<and> status_code x \<noteq> 429) \<Longrightarrow>
   fst (attempt_loop a c t r uc (att # rest) le w) =
     Exhausted (Some [Lit ''HTTP error '',
                      (case resp of None \<Rightarrow> Lit ''unknown'' | Some x \<Rightarrow> IntV (status_code x)),
                      Lit '': '', Lit e])
   \<and> length (requests (snd (attempt_loop a c t r uc (att # rest) le w))) = Suc (length (requests w))
   \<and> sleeps (snd (attempt_loop a c t r uc (att # rest) le w)) = sleeps w"
  by (auto simp: session_get_def)

lemma attempt_loop_parse_error_stops:
  "net w (length (requests w)) = ParseError e \<Longrightarrow>
   fst (attempt_loop a c t r uc (att # rest) le w) =
     Exhausted (Some [Lit ''Response parsing error: '', Lit e])
   \<and> length (requests (snd (attempt_loop a c t r uc (att # rest) le w))) = Suc (length (requests w))
   \<and> sleeps (snd (attempt_loop a c t r uc (att # rest) le w)) = sleeps w"
  by (simp add: session_get_def)

text \<open>
  C2, at the failing input: the provider answers 429 with a real \<open>requests.Response\<close>.
  The claim has the request retried with waits of 1, 2, 3 seconds; the code issues one
  request, does not wait, and fails with "HTTP error unknown".
\<close>

theorem geocode_address_rate_limit_not_retried:
  "fst (geocode_address ''1 Main St'' ''US'' None None True world_429) =
     GeoFail [Lit ''Geocoding failed after '', IntV 4, Lit '' attempts: '',
              Lit ''HTTP error '', Lit ''unknown'', Lit '': '',
              Lit ''429 Client Error: Too Many Requests'']
   \<and> length (requests (snd (geocode_address ''1 Main St'' ''US'' None None True world_429))) = 1
   \<and> sleeps (snd (geocode_address ''1 Main St'' ''US'' None None True world_429)) = []"
  by (simp add: geocode_eval world0_def world_429_def upt_0_4)

subsection \<open>Validation and saving of the coordinate pair\<close>

lemma clean_ok_iff:
  "clean c = Inr () \<longleftrightarrow>
     coordinate_invariant c \<and> strip (name c) \<noteq> [] \<and> strip (street_address c) \<noteq> [] \<and>
     strip (city c) \<noteq> [] \<and> strip (state c) \<noteq> []"
  by (auto simp: clean_def coordinate_invariant_def split: option.splits)

lemma clean_pair_error_iff:
  "clean c = Inl (ValidationError
      [[Lit ''Both latitude and longitude must be provided together, or both left empty.'']])
   \<longleftrightarrow> (latitude c = None) \<noteq> (longitude c = None)"
  by (auto simp: clean_def split: option.splits)

text \<open>\<open>clean_fields\<close> writes back to the optional attributes only; \<open>clean\<close> does not read them.\<close>

lemma clean_fields_frame:
  "pk (snd (clean_fields c w)) = pk c" "name (snd (clean_fields c w)) = name c"
  "street_address (snd (clean_fields c w)) = street_address c"
  "city (snd (clean_fields c w)) = city c" "state (snd (clean_fields c w)) = state c"
  "latitude (snd (clean_fields c w)) = latitude c"
  "longitude (snd (clean_fields c w)) = longitude c"
  "geocoding_accuracy (snd (clean_fields c w)) = geocoding_accuracy c"
  by (simp_all add: clean_fields_def Let_def)

lemma clean_after_clean_fields: "clean (snd (clean_fields c w)) = clean c"
  by (simp only: clean_def clean_fields_frame)

lemma full_clean_ok:
  "full_clean c w = Inr c0 \<Longrightarrow> clean c = Inr () \<and> c0 = snd (clean_fields c w)"
  using clean_after_clean_fields [of c w]
  by (auto simp: full_clean_def Let_def clean_def split: if_splits sum.splits exn.splits prod.splits)

lemma save_ok:
  assumes "save c w = Inr (c1, w1)"
  shows "clean c = Inr ()" "latitude c1 = latitude c" "longitude c1 = longitude c"
        "c1 \<in> set (db w1)"
        "set (db w1) \<subseteq> insert c1 (set (db w))"
  using assms
  by (auto simp: save_def Let_def list_ex_iff clean_fields_frame
           split: sum.splits option.splits if_splits dest!: full_clean_ok)

lemmas save_eval =
  save_def full_clean_def clean_fields_def clean_field_def empty_value_def char_to_python_def
  bool_to_python_def not_null_violation_def clean_def next_pk_def strip_def isspace_def Let_def

text \<open>
  What a save writes: the values as \<open>clean_fields\<close> converted them (the integer 43004 as
  the string, 1 as \<open>True\<close>); and a \<open>None\<close> in a column that is not nullable passes
  \<open>full_clean\<close> (the field is blank) and fails at the write.
\<close>

lemma digit_chars:
  "char_of (52::nat) = CHR ''4''" "char_of (51::nat) = CHR ''3''" "char_of (48::nat) = CHR ''0''"
  by code_simp+

lemma str_int_43004: "str_int 43004 = ''43004''"
  by (simp add: str_int_def str_nat.simps[of 43004] str_nat.simps[of 4300] str_nat.simps[of 430]
        str_nat.simps[of 43] str_nat.simps[of 4] digit_chars)

lemma save_converts_values:
  "save (church0\<lparr>pk := None, zip_code := PInt 43004, is_active := PInt 1\<rparr>) world0 =
     Inr (church0\<lparr>pk := Some 1, zip_code := PStr ''43004'', is_active := PBool True\<rparr>,
          world0\<lparr>db := [church0\<lparr>pk := Some 1, zip_code := PStr ''43004'',
                                 is_active := PBool True\<rparr>]\<rparr>)"
  by (simp add: save_eval church0_def world0_def str_int_43004)

lemma save_none_integrity_error:
  "save (church0\<lparr>zip_code := PNone\<rparr>) world0 =
     Inl (IntegrityError [Lit ''NOT NULL constraint failed''])"
  by (simp add: save_eval church0_def world0_def)

text \<open>
  C4, as stated, fails: a record with both coordinates present, latitude 91 and
  longitude 0, has a complete pair, and \<open>clean\<close> rejects its coordinate fields.
\<close>

theorem clean_coordinate_pair_counterexample:
  "latitude (church0\<lparr>latitude := Some 91, longitude := Some 0\<rparr>) \<noteq> None
   \<and> longitude (church0\<lparr>latitude := Some 91, longitude := Some 0\<rparr>) \<noteq> None
   \<and> clean (church0\<lparr>latitude := Some 91, longitude := Some 0\<rparr>) =
       Inl (ValidationError [[Lit ''Latitude must be between -90 and 90 degrees.'']])"
  by (simp add: clean_def church0_def)

text \<open>
  C4, amended: \<open>clean\<close> raises the pairing error exactly when one of latitude and longitude
  is set without the other; it accepts a record exactly when the pair is fully absent or
  fully present within -90..90 and -180..180 (and the four required fields are not
  blank); and a save that succeeds stores a row with the coordinates of the instance
  that satisfies this invariant, so a table whose rows all satisfy it still does after
  the save.
\<close>

theorem clean_save_coordinate_pair:
  "(clean c = Inl (ValidationError
       [[Lit ''Both latitude and longitude must be provided together, or both left empty.'']])
     \<longleftrightarrow> (latitude c = None) \<noteq> (longitude c = None))
   \<and> (clean c = Inr () \<longleftrightarrow>
        coordinate_invariant c \<and> strip (name c) \<noteq> [] \<and> strip (street_address c) \<noteq> [] \<and>
        strip (city c) \<noteq> [] \<and> strip (state c) \<noteq> [])
   \<and> (save c w = Inr (c1, w1) \<longrightarrow>
        coordinate_invariant c1 \<and> c1 \<in> set (db w1) \<and>
        latitude c1 = latitude c \<and> longitude c1 = longitude c \<and>
        (list_all coordinate_invariant (db w) \<longrightarrow> list_all coordinate_invariant (db w1)))"
proof (intro conjI impI)
  assume s: "save c w = Inr (c1, w1)"
  from save_ok[OF s] have inv: "coordinate_invariant c1"
    by (simp add: clean_ok_iff coordinate_invariant_def)
  then show "coordinate_invariant c1" .
  show "c1 \<in> set (db w1)" using save_ok[OF s] by simp
  show "latitude c1 = latitude c" using save_ok[OF s] by simp
  show "longitude c1 = longitude c" using save_ok[OF s] by simp
  assume "list_all coordinate_invariant (db w)"
  with inv save_ok(5)[OF s] show "list_all coordinate_invariant (db w1)"
    by (auto simp: list_all_iff)
qed (rule clean_pair_error_iff clean_ok_iff)+

lemma save_church1: "save church1 world0 = Inr (church1, world0\<lparr>db := [church1]\<rparr>)"
  by (simp add: save_eval church1_def church0_def world0_def)

lemma save_church0: "save church0 world0 = Inr (church0, world0\<lparr>db := [church0]\<rparr>)"
  by (simp add: save_eval church0_def world0_def)

theorem clean_save_coordinate_pair_witness:
  "clean (church0\<lparr>latitude := Some 40\<rparr>) = Inl (ValidationError
       [[Lit ''Both latitude and longitude must be provided together, or both left empty.'']])
   \<and> clean church0 = Inr ()
   \<and> clean church1 = Inr ()
   \<and> clean (church0\<lparr>latitude := Some 91, longitude := Some 0\<rparr>) \<noteq> Inr ()
   \<and> save church1 world0 = Inr (church1, world0\<lparr>db := [church1]\<rparr>)
   \<and> coordinate_invariant church1 \<and> latitude church1 = Some 40 \<and> longitude church1 = Some (- 83)
   \<and> list_all coordinate_invariant (db (world0\<lparr>db := [church1]\<rparr>))
   \<and> save church0 world0 = Inr (church0, world0\<lparr>db := [church0]\<rparr>)
   \<and> coordinate_invariant church0"
proof -
  have e: "list_all coordinate_invariant (db world0)"
    by (simp add: world0_def)
  have ll: "latitude church1 = Some 40" "longitude church1 = Some (- 83)"
    by (simp_all add: church1_def)
  note one = clean_save_coordinate_pair [of "church0\<lparr>latitude := Some 40\<rparr>" world0 church0 world0]
  note none = clean_save_coordinate_pair [of church0 world0 church0 "world0\<lparr>db := [church0]\<rparr>"]
  note both = clean_save_coordinate_pair [of church1 world0 church1 "world0\<lparr>db := [church1]\<rparr>"]
  note out = clean_save_coordinate_pair
               [of "church0\<lparr>latitude := Some 91, longitude := Some 0\<rparr>" world0 church0 world0]
  have 1: "clean (church0\<lparr>latitude := Some 40\<rparr>) = Inl (ValidationError
       [[Lit ''Both latitude and longitude must be provided together, or both left empty.'']])"
    using one by (simp add: church0_def)
  have 2: "coordinate_invariant church1" "list_all coordinate_invariant (db (world0\<lparr>db := [church1]\<rparr>))"
    using both save_church1 e by simp_all
  have 3: "clean church1 = Inr ()"
    using both 2(1) by (simp add: church1_def church0_def strip_def isspace_def)
  have 4: "coordinate_invariant church0"
    using none save_church0 by simp
  have 5: "clean church0 = Inr ()"
    using none 4 by (simp add: church0_def strip_def isspace_def)
  have 6: "clean (church0\<lparr>latitude := Some 91, longitude := Some 0\<rparr>) \<noteq> Inr ()"
    using out by (simp add: coordinate_invariant_def)
  show ?thesis
    using 1 2 3 4 5 6 ll save_church1 save_church0 by simp
qed

subsection \<open>Geocoding one church\<close>

lemma attempt_loop_db: "db (snd (attempt_loop a c t r uc atts le w)) = db w"
proof (induction atts arbitrary: le w)
  case Nil
  then show ?case by simp
next
  case (Cons att rest)
  show ?case
    by (simp add: session_get_def Let_def sleep_def cache_result_def Cons.IH split: outcome.split)
qed

lemma geocode_address_db: "db (snd (geocode_address a c t r uc w)) = db w"
proof (cases "a = [] \<or> strip a = []")
  case True
  then show ?thesis by (auto simp: geocode_address_def)
next
  case False
  show ?thesis
  proof (cases "uc \<and> cache w (get_cache_key (strip a) c w) \<noteq> None")
    case True
    with False show ?thesis
      by (auto simp: geocode_address_def Let_def get_cached_result_def)
  next
    case miss: False
    define w1 where "w1 = (if uc then snd (get_cached_result (strip a) c w) else w)"
    have d: "db w1 = db w"
      by (simp add: w1_def get_cached_result_def Let_def)
    define res where "res = attempt_loop (strip a) c (or_default t DEFAULT_TIMEOUT)
                              (or_default r DEFAULT_RETRIES) uc
                              [0..<nat (or_default r DEFAULT_RETRIES + 1)] None w1"
    have eq: "snd (geocode_address a c t r uc w) = snd res"
      using False miss
      by (auto simp: geocode_address_def Let_def get_cached_result_def w1_def res_def
               split: prod.split loop_end.split)
    have "db (snd res) = db w1"
      unfolding res_def by (rule attempt_loop_db)
    then show ?thesis by (simp add: eq d)
  qed
qed

text \<open>
  C6: for a church that has both coordinates, \<open>geocode_church\<close> with \<open>force_update=False\<close>
  returns success with \<open>skipped\<close> set, and the service object, the church and the world
  are as before: no request, no cache access, no geocoding service created. And when
  geocoding is attempted (the church has no coordinates or the update is forced, the
  service is available, the address is formed) and \<open>geocode_address\<close> fails, the result
  reports the error, the church instance is returned unchanged and so is the table.
\<close>

theorem geocode_church_frame:
  "(has_coordinates c \<longrightarrow>
      geocode_church self c False w =
        Inr (\<lparr>gc_success = True, gc_message = [Lit ''Church already has coordinates''],
              gc_skipped = True, gc_coordinates = None\<rparr>, self, c, w))
   \<and> (\<not> (has_coordinates c \<and> \<not> force_update) \<and> ensure_service self w = Inr self1 \<and>
        full_address c = Inr addr \<and>
        geocode_address addr ''US'' None None True w = (GeoFail err, w1) \<longrightarrow>
      geocode_church self c force_update w =
        Inr (\<lparr>gc_success = False, gc_message = Lit ''Geocoding failed: '' # err,
              gc_skipped = False, gc_coordinates = None\<rparr>, self1, c, w1)
      \<and> db w1 = db w)"
proof (intro conjI impI)
  assume "has_coordinates c"
  then show "geocode_church self c False w =
        Inr (\<lparr>gc_success = True, gc_message = [Lit ''Church already has coordinates''],
              gc_skipped = True, gc_coordinates = None\<rparr>, self, c, w)"
    by (simp add: geocode_church_def)
next
  assume h: "\<not> (has_coordinates c \<and> \<not> force_update) \<and> ensure_service self w = Inr self1 \<and>
        full_address c = Inr addr \<and>
        geocode_address addr ''US'' None None True w = (GeoFail err, w1)"
  then show "geocode_church self c force_update w =
        Inr (\<lparr>gc_success = False, gc_message = Lit ''Geocoding failed: '' # err,
              gc_skipped = False, gc_coordinates = None\<rparr>, self1, c, w1)"
    by (auto simp: geocode_church_def)
  from h have "w1 = snd (geocode_address addr ''US'' None None True w)" by simp
  then show "db w1 = db w" by (simp add: geocode_address_db)
qed

lemma full_address_church0: "full_address church0 = Inr ''1 Main St, Columbus, OH, 43004''"
  by (simp add: full_address_def church0_def strip_def isspace_def)

lemma geocode_church0_fails:
  "fst (geocode_address ''1 Main St, Columbus, OH, 43004'' ''US'' None None True world0) =
     GeoFail [Lit ''Geocoding failed after '', IntV 4, Lit '' attempts: '',
              Lit ''Request timeout: '', Lit ''timed out'']"
  by (simp add: geocode_eval world0_def upt_0_4)

theorem geocode_church_frame_witness:
  "has_coordinates church1
   \<and> geocode_church data_service0 church1 False world0 =
       Inr (\<lparr>gc_success = True, gc_message = [Lit ''Church already has coordinates''],
             gc_skipped = True, gc_coordinates = None\<rparr>, data_service0, church1, world0)
   \<and> geocode_church data_service0 church0 False world0 =
       Inr (\<lparr>gc_success = False,
             gc_message = [Lit ''Geocoding failed: '', Lit ''Geocoding failed after '', IntV 4,
                           Lit '' attempts: '', Lit ''Request timeout: '', Lit ''timed out''],
             gc_skipped = False, gc_coordinates = None\<rparr>,
            \<lparr>geocoding_service = Some \<lparr>api_key = ''key''\<rparr>\<rparr>, church0,
            snd (geocode_address ''1 Main St, Columbus, OH, 43004'' ''US'' None None True world0))"
proof -
  have hc: "has_coordinates church1"
    by (simp add: has_coordinates_def coordinates_def church1_def church0_def)
  have nc: "\<not> (has_coordinates church0 \<and> \<not> False)"
    by (simp add: has_coordinates_def coordinates_def church0_def)
  have es: "ensure_service data_service0 world0 =
              Inr \<lparr>geocoding_service = Some \<lparr>api_key = ''key''\<rparr>\<rparr>"
    by (simp add: ensure_service_def data_service0_def GeocodingService_def world0_def)
  have ga: "geocode_address ''1 Main St, Columbus, OH, 43004'' ''US'' None None True world0 =
              (GeoFail [Lit ''Geocoding failed after '', IntV 4, Lit '' attempts: '',
                        Lit ''Request timeout: '', Lit ''timed out''],
               snd (geocode_address ''1 Main St, Columbus, OH, 43004'' ''US'' None None True world0))"
    using geocode_church0_fails by (simp add: prod_eq_iff)
  show ?thesis
    using geocode_church_frame [of church1 data_service0 world0 False]
          geocode_church_frame [of church0 data_service0 world0 False
             "\<lparr>geocoding_service = Some \<lparr>api_key = ''key''\<rparr>\<rparr>"
             "''1 Main St, Columbus, OH, 43004''"
             "[Lit ''Geocoding failed after '', IntV 4, Lit '' attempts: '',
               Lit ''Request timeout: '', Lit ''timed out'']"
             "snd (geocode_address ''1 Main St, Columbus, OH, 43004'' ''US'' None None True world0)"]
          hc nc es ga full_address_church0
    by simp
qed

subsection \<open>Importing rows\<close>

lemma get_stripped_cases:
  "get_stripped data key = Inl AttributeError \<or> (\<exists>s. get_stripped data key = Inr s)"
  by (auto simp: get_stripped_def dict_get_def split: option.splits pyval.splits)

lemma get_stripped_blank:
  "(case data key of None \<Rightarrow> True | Some (PStr s) \<Rightarrow> strip s = [] | Some v \<Rightarrow> False) \<Longrightarrow>
   get_stripped data key = Inr []"
  by (auto simp: get_stripped_def dict_get_def strip_def split: option.splits pyval.splits)

lemma import_row_missing:
  assumes "missing_required data"
  shows "import_row data w = Inr (Missing, w) \<or> import_row data w = Inl AttributeError"
proof -
  from assms have
    "get_stripped data ''name'' = Inr [] \<or> get_stripped data ''street_address'' = Inr [] \<or>
     get_stripped data ''city'' = Inr [] \<or> get_stripped data ''state'' = Inr []"
    by (auto simp: missing_required_def dest: get_stripped_blank)
  then show ?thesis
    using get_stripped_cases [of data "''name''"] get_stripped_cases [of data "''street_address''"]
          get_stripped_cases [of data "''city''"] get_stripped_cases [of data "''state''"]
    by (auto simp: import_row_def)
qed

lemma import_loop_counts:
  "import_loop irows k w = (k1, w1) \<Longrightarrow>
   created k1 + updated k1 + failed k1 = created k + updated k + failed k + length irows
   \<and> failed k1 + length (failed_records k) = failed k + length (failed_records k1)
   \<and> failed k + length (filter (\<lambda>(i, d). missing_required d) irows) \<le> failed k1
   \<and> set (failed_records k) \<subseteq> set (failed_records k1)"
proof (induction irows arbitrary: k w)
  case Nil
  then show ?case by simp
next
  case (Cons x rest)
  obtain i d where x: "x = (i, d)" by (cases x)
  show ?case
  proof (cases "import_row d w")
    case (Inl e)
    with Cons.prems x have
      "import_loop rest (k\<lparr>failed := failed k + 1,
           failed_records := failed_records k @ [(i, d, exn_str e)]\<rparr>) w = (k1, w1)"
      by simp
    from Cons.IH [OF this] show ?thesis by (auto simp: x)
  next
    case (Inr p)
    obtain st w2 where p: "p = (st, w2)" by (cases p)
    show ?thesis
    proof (cases st)
      case Missing
      with Cons.prems x Inr p have
        "import_loop rest (k\<lparr>failed := failed k + 1,
             failed_records := failed_records k @
               [(i, d, [Lit ''Missing required fields (name, street_address, city, state)''])]\<rparr>) w2
           = (k1, w1)"
        by simp
      from Cons.IH [OF this] show ?thesis by (auto simp: x)
    next
      case Created
      with Cons.prems x Inr p have
        "import_loop rest (k\<lparr>created := created k + 1\<rparr>) w2 = (k1, w1)"
        by simp
      from Cons.IH [OF this] import_row_missing [of d w] Inr p Created
      show ?thesis by (auto simp: x)
    next
      case Updated
      with Cons.prems x Inr p have
        "import_loop rest (k\<lparr>updated := updated k + 1\<rparr>) w2 = (k1, w1)"
        by simp
      from Cons.IH [OF this] import_row_missing [of d w] Inr p Updated
      show ?thesis by (auto simp: x)
    qed
  qed
qed

lemma import_loop_missing_recorded:
  "import_loop irows k w = (k1, w1) \<Longrightarrow> (i, d) \<in> set irows \<Longrightarrow> missing_required d \<Longrightarrow>
   \<exists>m. (i, d, m) \<in> set (failed_records k1)"
proof (induction irows arbitrary: k w)
  case Nil
  then show ?case by simp
next
  case (Cons x rest)
  obtain j e where x: "x = (j, e)" by (cases x)
  show ?case
  proof (cases "(i, d) = (j, e)")
    case True
    then have m: "import_row e w = Inr (Missing, w) \<or> import_row e w = Inl AttributeError"
      using Cons.prems(3) import_row_missing by blast
    have "\<exists>k2 w2 msg. import_loop rest k2 w2 = (k1, w1) \<and> (j, e, msg) \<in> set (failed_records k2)"
    proof (rule disjE [OF m])
      assume a: "import_row e w = Inr (Missing, w)"
      define k2 where "k2 = k\<lparr>failed := failed k + 1,
             failed_records := failed_records k @
               [(j, e, [Lit ''Missing required fields (name, street_address, city, state)''])]\<rparr>"
      from a Cons.prems(1) x have "import_loop rest k2 w = (k1, w1)"
        by (simp add: k2_def)
      moreover have
        "(j, e, [Lit ''Missing required fields (name, street_address, city, state)''])
           \<in> set (failed_records k2)"
        by (simp add: k2_def)
      ultimately show ?thesis by blast
    next
      assume a: "import_row e w = Inl AttributeError"
      define k2 where "k2 = k\<lparr>failed := failed k + 1,
             failed_records := failed_records k @ [(j, e, exn_str AttributeError)]\<rparr>"
      from a Cons.prems(1) x have "import_loop rest k2 w = (k1, w1)"
        by (simp add: k2_def)
      moreover have "(j, e, exn_str AttributeError) \<in> set (failed_records k2)"
        by (simp add: k2_def)
      ultimately show ?thesis by blast
    qed
    then obtain k2 w2 msg where
      l: "import_loop rest k2 w2 = (k1, w1)" and r: "(j, e, msg) \<in> set (failed_records k2)"
      by blast
    from import_loop_counts [OF l] r True show ?thesis by blast
  next
    case False
    with Cons.prems(2) x have mem: "(i, d) \<in> set rest" by auto
    obtain k2 w2 where l: "import_loop rest k2 w2 = (k1, w1)"
      using Cons.prems(1) x
      by (auto split: sum.splits prod.splits row_status.splits)
    from Cons.IH [OF l mem Cons.prems(3)] show ?thesis .
  qed
qed


lemma length_filter_zip_snd:
  "length xs = length ys \<Longrightarrow>
   length (filter (\<lambda>(i, d). P d) (zip xs ys)) = length (filter P ys)"
proof -
  assume l: "length xs = length ys"
  have "length (filter P ys) = length (filter P (map snd (zip xs ys)))"
    using l by simp
  also have "\<dots> = length (filter (P \<circ> snd) (zip xs ys))"
    by (simp add: filter_map)
  also have "(P \<circ> snd) = (\<lambda>(i, d). P d)"
    by (simp add: fun_eq_iff)
  finally show ?thesis by simp
qed

lemma enumerate_from_1_mem:
  "i < length ys \<Longrightarrow> (Suc i, ys ! i) \<in> set (zip [1..<Suc (length ys)] ys)"
proof -
  assume i: "i < length ys"
  then have "zip [1..<Suc (length ys)] ys ! i = (Suc i, ys ! i)"
    by (simp del: upt_Suc)
  moreover have "i < length (zip [1..<Suc (length ys)] ys)"
    using i by (simp del: upt_Suc)
  ultimately show ?thesis
    by (metis nth_mem)
qed

text \<open>
  A row that lacks a required field changes neither the world nor what happens to the
  rows before and after it: the loop over a list with such a row ends in the same world
  as the loop over the list without it, with the same numbers of created and updated
  rows and one more failed row (whatever the indices and the starting counters).
\<close>

lemma import_loop_skip_missing:
  assumes "map snd irows = pre @ d # post" "map snd irows' = pre @ post" "missing_required d"
  shows "snd (import_loop irows k w) = snd (import_loop irows' k' w)
     \<and> created (fst (import_loop irows k w)) + created k' =
         created (fst (import_loop irows' k' w)) + created k
     \<and> updated (fst (import_loop irows k w)) + updated k' =
         updated (fst (import_loop irows' k' w)) + updated k
     \<and> failed (fst (import_loop irows k w)) + failed k' =
         Suc (failed (fst (import_loop irows' k' w)) + failed k)"
  using assms
proof (induction pre arbitrary: irows irows' k k' w)
  case Nil
  then obtain i r1 where ir: "irows = (i, d) # r1" and r1: "map snd r1 = post"
    by (auto simp: map_eq_Cons_conv)
  from Nil have r': "map snd irows' = post" by simp
  have m: "import_row d w = Inr (Missing, w) \<or> import_row d w = Inl AttributeError"
    using Nil.prems(3) by (rule import_row_missing)
  then obtain k2 where
    l: "import_loop irows k w = import_loop r1 k2 w" and
    t: "created k2 = created k" "updated k2 = updated k" "failed k2 = Suc (failed k)"
    by (auto simp: ir)
  have sh: "snd (import_loop r1 k2 w) = snd (import_loop irows' k' w)
     \<and> created (fst (import_loop r1 k2 w)) + created k' =
         created (fst (import_loop irows' k' w)) + created k2
     \<and> updated (fst (import_loop r1 k2 w)) + updated k' =
         updated (fst (import_loop irows' k' w)) + updated k2
     \<and> failed (fst (import_loop r1 k2 w)) + failed k' =
         failed (fst (import_loop irows' k' w)) + failed k2"
    using r1 r'
  proof (induction post arbitrary: r1 irows' k2 k' w)
    case Nil
    then show ?case by simp
  next
    case (Cons p post)
    then obtain a ra b rb where
      e: "r1 = (a, p) # ra" "irows' = (b, p) # rb" "map snd ra = post" "map snd rb = post"
      by (auto simp: map_eq_Cons_conv)
    show ?case
    proof (cases "import_row p w")
      case (Inl x)
      show ?thesis
        using Cons.IH [OF e(3) e(4),
            of "k2\<lparr>failed := failed k2 + 1, failed_records := failed_records k2 @ [(a, p, exn_str x)]\<rparr>"
               w
               "k'\<lparr>failed := failed k' + 1, failed_records := failed_records k' @ [(b, p, exn_str x)]\<rparr>"]
        by (simp add: e Inl)
    next
      case (Inr y)
      obtain st w2 where y: "y = (st, w2)" by (cases y)
      show ?thesis
      proof (cases st)
        case Missing
        show ?thesis
          using Cons.IH [OF e(3) e(4),
            of "k2\<lparr>failed := failed k2 + 1, failed_records := failed_records k2 @
                   [(a, p, [Lit ''Missing required fields (name, street_address, city, state)''])]\<rparr>"
               w2
               "k'\<lparr>failed := failed k' + 1, failed_records := failed_records k' @
                   [(b, p, [Lit ''Missing required fields (name, street_address, city, state)''])]\<rparr>"]
          by (simp add: e Inr y Missing)
      next
        case Created
        show ?thesis
          using Cons.IH [OF e(3) e(4),
            of "k2\<lparr>created := created k2 + 1\<rparr>" w2 "k'\<lparr>created := created k' + 1\<rparr>"]
          by (simp add: e Inr y Created)
      next
        case Updated
        show ?thesis
          using Cons.IH [OF e(3) e(4),
            of "k2\<lparr>updated := updated k2 + 1\<rparr>" w2 "k'\<lparr>updated := updated k' + 1\<rparr>"]
          by (simp add: e Inr y Updated)
      qed
    qed
  qed
  show ?case
    using sh t by (simp add: l)
next
  case (Cons p pre)
  then obtain a ra b rb where
    e: "irows = (a, p) # ra" "irows' = (b, p) # rb"
       "map snd ra = pre @ d # post" "map snd rb = pre @ post"
    by (auto simp: map_eq_Cons_conv)
  show ?case
  proof (cases "import_row p w")
    case (Inl x)
    show ?thesis
      using Cons.IH [OF e(3) e(4) Cons.prems(3),
          of "k\<lparr>failed := failed k + 1, failed_records := failed_records k @ [(a, p, exn_str x)]\<rparr>"
             w
             "k'\<lparr>failed := failed k' + 1, failed_records := failed_records k' @ [(b, p, exn_str x)]\<rparr>"]
      by (simp add: e Inl)
  next
    case (Inr y)
    obtain st w2 where y: "y = (st, w2)" by (cases y)
    show ?thesis
    proof (cases st)
      case Missing
      show ?thesis
        using Cons.IH [OF e(3) e(4) Cons.prems(3),
          of "k\<lparr>failed := failed k + 1, failed_records := failed_records k @
                 [(a, p, [Lit ''Missing required fields (name, street_address, city, state)''])]\<rparr>"
             w2
             "k'\<lparr>failed := failed k' + 1, failed_records := failed_records k' @
                 [(b, p, [Lit ''Missing required fields (name, street_address, city, state)''])]\<rparr>"]
        by (simp add: e Inr y Missing)
    next
      case Created
      show ?thesis
        using Cons.IH [OF e(3) e(4) Cons.prems(3),
          of "k\<lparr>created := created k + 1\<rparr>" w2 "k'\<lparr>created := created k' + 1\<rparr>"]
        by (simp add: e Inr y Created)
    next
      case Updated
      show ?thesis
        using Cons.IH [OF e(3) e(4) Cons.prems(3),
          of "k\<lparr>updated := updated k + 1\<rparr>" w2 "k'\<lparr>updated := updated k' + 1\<rparr>"]
        by (simp add: e Inr y Updated)
    qed
  qed
qed

lemma import_church_data_loop:
  "snd (import_church_data rows w) =
     snd (import_loop (zip [1..<Suc (length rows)] rows)
            \<lparr>created = 0, updated = 0, failed = 0, failed_records = []\<rparr> w)
   \<and> s_created (fst (import_church_data rows w)) =
       created (fst (import_loop (zip [1..<Suc (length rows)] rows)
            \<lparr>created = 0, updated = 0, failed = 0, failed_records = []\<rparr> w))
   \<and> s_updated (fst (import_church_data rows w)) =
       updated (fst (import_loop (zip [1..<Suc (length rows)] rows)
            \<lparr>created = 0, updated = 0, failed = 0, failed_records = []\<rparr> w))
   \<and> s_failed (fst (import_church_data rows w)) =
       failed (fst (import_loop (zip [1..<Suc (length rows)] rows)
            \<lparr>created = 0, updated = 0, failed = 0, failed_records = []\<rparr> w))"
proof (cases "rows = []")
  case True
  then show ?thesis by (simp add: import_church_data_def)
next
  case False
  then show ?thesis
    by (simp add: import_church_data_def Let_def split: prod.split del: upt_Suc)
qed

lemma import_church_data_skip_missing:
  assumes "missing_required d"
  shows "snd (import_church_data (pre @ d # post) w) = snd (import_church_data (pre @ post) w)
     \<and> s_created (fst (import_church_data (pre @ d # post) w)) =
         s_created (fst (import_church_data (pre @ post) w))
     \<and> s_updated (fst (import_church_data (pre @ d # post) w)) =
         s_updated (fst (import_church_data (pre @ post) w))
     \<and> s_failed (fst (import_church_data (pre @ d # post) w)) =
         Suc (s_failed (fst (import_church_data (pre @ post) w)))"
proof -
  define k0 where "k0 = \<lparr>created = 0, updated = 0, failed = 0, failed_records = []\<rparr>"
  define xs where "xs = zip [1..<Suc (length (pre @ d # post))] (pre @ d # post)"
  define ys where "ys = zip [1..<Suc (length (pre @ post))] (pre @ post)"
  have a: "map snd xs = pre @ d # post"
    unfolding xs_def by (rule map_snd_zip) (simp del: upt_Suc)
  have b: "map snd ys = pre @ post"
    unfolding ys_def by (rule map_snd_zip) (simp del: upt_Suc)
  note sk = import_loop_skip_missing [OF a b assms, of k0 w k0]
  note l1 = import_church_data_loop [of "pre @ d # post" w, folded xs_def k0_def]
  note l2 = import_church_data_loop [of "pre @ post" w, folded ys_def k0_def]
  show ?thesis
    using sk by (simp add: l1 l2)
qed

lemma import_church_data_summary:
  "import_church_data [] w =
     (\<lparr>s_success = False, s_message = [Lit ''No church data provided''],
       s_total = 0, s_created = 0, s_updated = 0, s_failed = 0, s_failed_records = None\<rparr>, w)
   \<and> (church_data \<noteq> [] \<longrightarrow>
        s_success (fst (import_church_data church_data w))
        \<and> s_total (fst (import_church_data church_data w)) = length church_data
        \<and> s_created (fst (import_church_data church_data w)) +
          s_updated (fst (import_church_data church_data w)) +
          s_failed (fst (import_church_data church_data w)) = length church_data
        \<and> length (filter missing_required church_data)
            \<le> s_failed (fst (import_church_data church_data w))
        \<and> (\<exists>frs. s_failed_records (fst (import_church_data church_data w)) = Some frs
              \<and> length frs = s_failed (fst (import_church_data church_data w))
              \<and> (\<forall>i < length church_data. missing_required (church_data ! i) \<longrightarrow>
                     (\<exists>m. (Suc i, church_data ! i, m) \<in> set frs))))"
proof (intro conjI impI)
  show "import_church_data [] w =
     (\<lparr>s_success = False, s_message = [Lit ''No church data provided''],
       s_total = 0, s_created = 0, s_updated = 0, s_failed = 0, s_failed_records = None\<rparr>, w)"
    by (simp add: import_church_data_def)
next
  assume ne: "church_data \<noteq> []"
  define irows where "irows = zip [1..<Suc (length church_data)] church_data"
  define k0 where "k0 = \<lparr>created = 0, updated = 0, failed = 0, failed_records = []\<rparr>"
  obtain k1 w1 where l: "import_loop irows k0 w = (k1, w1)"
    by (cases "import_loop irows k0 w")
  have S: "fst (import_church_data church_data w) =
        \<lparr>s_success = True,
         s_message = [Lit ''Import completed: '', IntV (int (created k1)), Lit '' created, '',
                      IntV (int (updated k1)), Lit '' updated, '',
                      IntV (int (failed k1)), Lit '' failed''],
         s_total = length church_data, s_created = created k1, s_updated = updated k1,
         s_failed = failed k1, s_failed_records = Some (failed_records k1)\<rparr>"
    using ne l by (simp add: import_church_data_def Let_def irows_def k0_def del: upt_Suc)
  have len: "length irows = length church_data"
    by (simp add: irows_def del: upt_Suc)
  note c = import_loop_counts [OF l]
  show "s_success (fst (import_church_data church_data w))"
    by (simp add: S)
  show "s_total (fst (import_church_data church_data w)) = length church_data"
    by (simp add: S)
  show "s_created (fst (import_church_data church_data w)) +
          s_updated (fst (import_church_data church_data w)) +
          s_failed (fst (import_church_data church_data w)) = length church_data"
    using c by (simp add: S k0_def len)
  have "length (filter (\<lambda>(i, d). missing_required d) irows) =
        length (filter missing_required church_data)"
    unfolding irows_def by (rule length_filter_zip_snd) (simp del: upt_Suc)
  then show "length (filter missing_required church_data)
            \<le> s_failed (fst (import_church_data church_data w))"
    using c by (simp add: S k0_def)
  have rec: "\<exists>m. (Suc i, church_data ! i, m) \<in> set (failed_records k1)"
    if "i < length church_data" "missing_required (church_data ! i)" for i
    using import_loop_missing_recorded [OF l _ that(2)] enumerate_from_1_mem [OF that(1)]
    by (simp add: irows_def del: upt_Suc)
  show "\<exists>frs. s_failed_records (fst (import_church_data church_data w)) = Some frs
              \<and> length frs = s_failed (fst (import_church_data church_data w))
              \<and> (\<forall>i < length church_data. missing_required (church_data ! i) \<longrightarrow>
                     (\<exists>m. (Suc i, church_data ! i, m) \<in> set frs))"
    using c rec by (simp add: S k0_def)
qed

lemma import_example:
  "s_success (fst (import_church_data [row_valid, row_empty_name] world0))"
  "s_created (fst (import_church_data [row_valid, row_empty_name] world0)) = 1"
  "s_updated (fst (import_church_data [row_valid, row_empty_name] world0)) = 0"
  "s_failed (fst (import_church_data [row_valid, row_empty_name] world0)) = 1"
  "s_failed_records (fst (import_church_data [row_valid, row_empty_name] world0)) =
     Some [(2, row_empty_name,
            [Lit ''Missing required fields (name, street_address, city, state)''])]"
  "length (db (snd (import_church_data [row_valid, row_empty_name] world0))) = 1"
  by (simp_all add: import_church_data_def import_row_def get_stripped_def dict_get_def
        get_or_create_def save_eval row_valid_def row_empty_name_def world0_def)


lemma import_single_valid:
  "s_created (fst (import_church_data [row_valid] world0)) = 1"
  "s_failed (fst (import_church_data [row_valid] world0)) = 0"
  by (simp_all add: import_church_data_def import_row_def get_stripped_def dict_get_def
        get_or_create_def save_eval row_valid_def world0_def)

text \<open>A row whose zip code is \<open>None\<close> fails at the write and is counted as failed.\<close>

lemma import_null_zip_code_fails:
  "s_created (fst (import_church_data [row_valid(''zip_code'' \<mapsto> PNone)] world0)) = 0"
  "s_failed (fst (import_church_data [row_valid(''zip_code'' \<mapsto> PNone)] world0)) = 1"
  "db (snd (import_church_data [row_valid(''zip_code'' \<mapsto> PNone)] world0)) = []"
  by (simp_all add: import_church_data_def import_row_def get_stripped_def dict_get_def
        get_or_create_def save_eval row_valid_def world0_def)

text \<open>
  C5: on the empty list \<open>import_church_data\<close> reports failure with "No church data
  provided" and all counts zero, and changes nothing. On a non-empty list it reports
  success whatever happened to the rows; every row is counted once as created, updated
  or failed; every row that lacks a required field is counted as failed and recorded in
  \<open>failed_records\<close> under its 1-based index. And processing continues past such a row:
  wherever it stands in the list, the rows before and after it are processed as they are
  without it (same final table and world, same numbers created and updated), with one
  more failure counted.
\<close>

theorem import_church_data_rows:
  "import_church_data [] w =
     (\<lparr>s_success = False, s_message = [Lit ''No church data provided''],
       s_total = 0, s_created = 0, s_updated = 0, s_failed = 0, s_failed_records = None\<rparr>, w)
   \<and> (church_data \<noteq> [] \<longrightarrow>
        s_success (fst (import_church_data church_data w))
        \<and> s_total (fst (import_church_data church_data w)) = length church_data
        \<and> s_created (fst (import_church_data church_data w)) +
          s_updated (fst (import_church_data church_data w)) +
          s_failed (fst (import_church_data church_data w)) = length church_data
        \<and> length (filter missing_required church_data)
            \<le> s_failed (fst (import_church_data church_data w))
        \<and> (\<exists>frs. s_failed_records (fst (import_church_data church_data w)) = Some frs
              \<and> length frs = s_failed (fst (import_church_data church_data w))
              \<and> (\<forall>i < length church_data. missing_required (church_data ! i) \<longrightarrow>
                     (\<exists>m. (Suc i, church_data ! i, m) \<in> set frs))))
   \<and> (missing_required d \<longrightarrow>
        snd (import_church_data (pre @ d # post) w) = snd (import_church_data (pre @ post) w)
        \<and> s_success (fst (import_church_data (pre @ d # post) w))
        \<and> s_created (fst (import_church_data (pre @ d # post) w)) =
            s_created (fst (import_church_data (pre @ post) w))
        \<and> s_updated (fst (import_church_data (pre @ d # post) w)) =
            s_updated (fst (import_church_data (pre @ post) w))
        \<and> s_failed (fst (import_church_data (pre @ d # post) w)) =
            Suc (s_failed (fst (import_church_data (pre @ post) w))))"
proof -
  have "s_success (fst (import_church_data (pre @ d # post) w))"
    by (simp add: import_church_data_def Let_def split: prod.split)
  then show ?thesis
    using import_church_data_summary [of w church_data]
          import_church_data_skip_missing [of d pre post w]
    by blast
qed

theorem import_church_data_rows_witness:
  "missing_required row_empty_name
   \<and> s_success (fst (import_church_data [row_valid, row_empty_name] world0))
   \<and> s_total (fst (import_church_data [row_valid, row_empty_name] world0)) = 2
   \<and> s_created (fst (import_church_data [row_valid, row_empty_name] world0)) = 1
   \<and> s_failed (fst (import_church_data [row_valid, row_empty_name] world0)) = 1
   \<and> s_success (fst (import_church_data [row_empty_name, row_valid] world0))
   \<and> s_created (fst (import_church_data [row_empty_name, row_valid] world0)) = 1
   \<and> s_failed (fst (import_church_data [row_empty_name, row_valid] world0)) = 1
   \<and> snd (import_church_data [row_empty_name, row_valid] world0) =
       snd (import_church_data [row_valid] world0)"
proof -
  have m: "missing_required row_empty_name"
    by (simp add: missing_required_def row_empty_name_def row_valid_def strip_def)
  note after = import_church_data_rows
      [where w = world0 and church_data = "[row_valid, row_empty_name]"
         and pre = "[row_valid]" and d = row_empty_name and post = "[]"]
  note before = import_church_data_rows
      [where w = world0 and church_data = "[row_empty_name, row_valid]"
         and pre = "[]" and d = row_empty_name and post = "[row_valid]"]
  have a: "s_success (fst (import_church_data [row_valid, row_empty_name] world0))"
    "s_total (fst (import_church_data [row_valid, row_empty_name] world0)) = 2"
    "s_created (fst (import_church_data [row_valid, row_empty_name] world0)) = 1"
    "s_failed (fst (import_church_data [row_valid, row_empty_name] world0)) = 1"
    using after m import_single_valid by simp_all
  have b: "s_success (fst (import_church_data [row_empty_name, row_valid] world0))"
    "s_created (fst (import_church_data [row_empty_name, row_valid] world0)) = 1"
    "s_failed (fst (import_church_data [row_empty_name, row_valid] world0)) = 1"
    "snd (import_church_data [row_empty_name, row_valid] world0) =
       snd (import_church_data [row_valid] world0)"
    using before m import_single_valid by simp_all
  show ?thesis
    using m a b by simp
qed

subsection \<open>The search view\<close>

text \<open>
  C10: when \<open>lat\<close> or \<open>lng\<close> is not sent or is the empty string, \<open>get_queryset\<close> answers
  exactly as the request without both parameters does (same result, same effects): the
  text query is searched when \<open>q\<close> is there, and the result is empty when it is not.
\<close>

theorem get_queryset_partial_coordinates:
  "lat = None \<or> lat = Some [] \<or> lng = None \<or> lng = Some [] \<Longrightarrow>
   get_queryset \<lparr>qp_q = q, qp_lat = lat, qp_lng = lng, qp_radius = r\<rparr> w =
     get_queryset \<lparr>qp_q = q, qp_lat = None, qp_lng = None, qp_radius = r\<rparr> w
   \<and> ((q = None \<or> q = Some []) \<longrightarrow>
        get_queryset \<lparr>qp_q = q, qp_lat = lat, qp_lng = lng, qp_radius = r\<rparr> w = (Inr [], w))"
  by (auto simp: get_queryset_def Let_def split: option.splits)

lemma icontains_Columbus: "icontains ''Columbus'' ''columbus''"
  by code_simp

lemma sort_key_single: "sort_key f [x] = [x]"
  by simp

lemma text_search_example:
  "get_queryset \<lparr>qp_q = Some ''columbus'', qp_lat = None, qp_lng = None, qp_radius = None\<rparr> world1 =
     (Inr [(church1, NoDistance)], world1)"
  by (simp add: get_queryset_def objects_filter_def world1_def world0_def church1_def church0_def
        icontains_Columbus)

text \<open>
  By contrast, when both parameters are sent and do not parse, the coordinate branch is
  taken and answers the empty set, although the text query would match.
\<close>

lemma invalid_coordinates_example:
  "get_queryset \<lparr>qp_q = Some ''columbus'', qp_lat = Some ''abc'', qp_lng = Some ''def'',
                  qp_radius = None\<rparr> world1 = (Inr [], world1)"
  by (simp add: get_queryset_def world1_def world0_def)

theorem get_queryset_partial_coordinates_witness:
  "get_queryset \<lparr>qp_q = Some ''columbus'', qp_lat = Some ''40.7128'', qp_lng = None,
                  qp_radius = None\<rparr> world1 = (Inr [(church1, NoDistance)], world1)
   \<and> get_queryset \<lparr>qp_q = Some ''columbus'', qp_lat = Some [], qp_lng = Some ''-74.0060'',
                  qp_radius = None\<rparr> world1 = (Inr [(church1, NoDistance)], world1)
   \<and> get_queryset \<lparr>qp_q = None, qp_lat = None, qp_lng = Some ''-74.0060'',
                  qp_radius = None\<rparr> world1 = (Inr [], world1)"
proof -
  have a: "get_queryset \<lparr>qp_q = Some ''columbus'', qp_lat = Some ''40.7128'', qp_lng = None,
                  qp_radius = None\<rparr> world1 =
           get_queryset \<lparr>qp_q = Some ''columbus'', qp_lat = None, qp_lng = None,
                  qp_radius = None\<rparr> world1"
    using get_queryset_partial_coordinates
            [of "Some ''40.7128''" None "Some ''columbus''" None world1]
    by blast
  have b: "get_queryset \<lparr>qp_q = Some ''columbus'', qp_lat = Some [], qp_lng = Some ''-74.0060'',
                  qp_radius = None\<rparr> world1 =
           get_queryset \<lparr>qp_q = Some ''columbus'', qp_lat = None, qp_lng = None,
                  qp_radius = None\<rparr> world1"
    using get_queryset_partial_coordinates
            [of "Some []" "Some ''-74.0060''" "Some ''columbus''" None world1]
    by blast
  have c: "get_queryset \<lparr>qp_q = None, qp_lat = None, qp_lng = Some ''-74.0060'',
                  qp_radius = None\<rparr> world1 = (Inr [], world1)"
    using get_queryset_partial_coordinates
            [of None "Some ''-74.0060''" None None world1]
    by blast
  show ?thesis
    unfolding a b c text_search_example by simp
qed

subsection \<open>The great-circle distance\<close>

lemma sin_half_diff_sq: "(sin ((y - x) / 2))\<^sup>2 = (sin ((x - y) / 2))\<^sup>2" for x y :: real
proof -
  have "(y - x) / 2 = - ((x - y) / 2)" by (simp add: field_simps)
  then have "sin ((y - x) / 2) = - sin ((x - y) / 2)"
    by (metis sin_minus)
  then show ?thesis by simp
qed

lemma haversine_a_sym: "haversine_a lat1 lon1 lat2 lon2 = haversine_a lat2 lon2 lat1 lon1"
  by (simp add: haversine_a_def Let_def sin_half_diff_sq [of lat1 lat2]
        sin_half_diff_sq [of lon1 lon2] mult.commute)

lemma sin_half_sq: "(sin (x / 2))\<^sup>2 = (1 - cos x) / 2" for x :: real
  using cos_double_sin [of "x / 2"] by simp

lemma haversine_a_convex:
  "haversine_a lat1 lon1 lat2 lon2 =
     (1 - (sin ((lon2 - lon1) / 2))\<^sup>2) * ((1 - cos (lat2 - lat1)) / 2) +
     (sin ((lon2 - lon1) / 2))\<^sup>2 * ((1 + cos (lat2 + lat1)) / 2)"
proof -
  define S where "S = (sin ((lon2 - lon1) / 2))\<^sup>2"
  define C where "C = cos lat1 * cos lat2"
  define D where "D = sin lat1 * sin lat2"
  have d: "cos (lat2 - lat1) = C + D" and a: "cos (lat2 + lat1) = C - D"
    by (simp_all add: cos_diff cos_add C_def D_def mult.commute)
  have "haversine_a lat1 lon1 lat2 lon2 = (1 - (C + D)) / 2 + C * S"
    by (simp add: haversine_a_def Let_def sin_half_sq [of "lat2 - lat1"] d S_def C_def)
  also have "\<dots> = (1 - S) * ((1 - (C + D)) / 2) + S * ((1 + (C - D)) / 2)"
    by (simp add: field_simps)
  finally show ?thesis
    by (simp add: d a S_def)
qed

lemma haversine_a_range:
  "0 \<le> haversine_a lat1 lon1 lat2 lon2" "haversine_a lat1 lon1 lat2 lon2 \<le> 1"
proof -
  define s where "s = (sin ((lon2 - lon1) / 2))\<^sup>2"
  define p where "p = (1 - cos (lat2 - lat1)) / 2"
  define q where "q = (1 + cos (lat2 + lat1)) / 2"
  have s: "0 \<le> s" "s \<le> 1"
    unfolding s_def by (simp_all add: abs_square_le_1)
  have p: "0 \<le> p" "p \<le> 1"
    unfolding p_def by simp_all
  have "0 \<le> q"
    unfolding q_def using cos_ge_minus_one [of "lat2 + lat1"] by argo
  moreover have "q \<le> 1"
    unfolding q_def using cos_le_one [of "lat2 + lat1"] by argo
  ultimately have q: "0 \<le> q" "q \<le> 1" .
  have a: "haversine_a lat1 lon1 lat2 lon2 = (1 - s) * p + s * q"
    unfolding s_def p_def q_def by (rule haversine_a_convex)
  show "0 \<le> haversine_a lat1 lon1 lat2 lon2"
    unfolding a using s p q by simp
  have "(1 - s) * p \<le> (1 - s) * 1" using s p by (intro mult_left_mono) simp_all
  moreover have "s * q \<le> s * 1" using s q by (intro mult_left_mono) simp_all
  ultimately show "haversine_a lat1 lon1 lat2 lon2 \<le> 1"
    unfolding a by simp
qed

lemma haversine_distance_total:
  "haversine_distance lat1 lon1 lat2 lon2 =
     Inr (2 * arcsin (sqrt (haversine_a (radians lat1) (radians lon1) (radians lat2) (radians lon2)))
          * 6371)"
  using haversine_a_range [of "radians lat1" "radians lon1" "radians lat2" "radians lon2"]
  by (simp add: haversine_distance_def Let_def not_less)

lemma haversine_distance_nonneg:
  "0 \<le> 2 * arcsin (sqrt (haversine_a a b c d)) * 6371"
proof -
  have "0 \<le> sqrt (haversine_a a b c d)" "sqrt (haversine_a a b c d) \<le> 1"
    using haversine_a_range [of a b c d] by simp_all
  then have "0 \<le> arcsin (sqrt (haversine_a a b c d))"
    using arcsin_le_arcsin [of 0 "sqrt (haversine_a a b c d)"] by simp
  then show ?thesis by simp
qed

text \<open>
  C8: the Haversine distance, in exact real arithmetic, is symmetric in its two points
  and is 0 from a point to itself. It never raises (the quantity under the square root
  lies between 0 and 1) and is never negative, and with the radius 6371 the distance
  between antipodal points on the equator is 6371 times pi.
\<close>

theorem haversine_symmetric_zero:
  "haversine_distance lat1 lon1 lat2 lon2 = haversine_distance lat2 lon2 lat1 lon1
   \<and> haversine_distance lat1 lon1 lat1 lon1 = Inr 0
   \<and> (\<exists>d. haversine_distance lat1 lon1 lat2 lon2 = Inr d \<and> 0 \<le> d)
   \<and> haversine_distance 0 0 0 180 = Inr (6371 * pi)"
proof (intro conjI)
  show "haversine_distance lat1 lon1 lat2 lon2 = haversine_distance lat2 lon2 lat1 lon1"
    by (simp add: haversine_distance_def haversine_a_sym [of "radians lat1" "radians lon1"])
  show "haversine_distance lat1 lon1 lat1 lon1 = Inr 0"
    by (simp add: haversine_distance_def haversine_a_def)
  show "\<exists>d. haversine_distance lat1 lon1 lat2 lon2 = Inr d \<and> 0 \<le> d"
    using haversine_distance_total haversine_distance_nonneg by blast
  have "haversine_a (radians 0) (radians 0) (radians 0) (radians 180) = 1"
    by (simp add: haversine_a_def radians_def)
  then show "haversine_distance 0 0 0 180 = Inr (6371 * pi)"
    by (simp add: haversine_distance_total)
qed

theorem haversine_symmetric_zero_witness:
  "haversine_distance 40.7128 (- 74.0060) 34.0522 (- 118.2437) =
     haversine_distance 34.0522 (- 118.2437) 40.7128 (- 74.0060)
   \<and> haversine_distance 40.7128 (- 74.0060) 40.7128 (- 74.0060) = Inr 0"
  using haversine_symmetric_zero [of "40.7128" "- 74.0060" "34.0522" "- 118.2437"]
  by blast

subsection \<open>Proximity search\<close>

lemma pi_ge_3: "3 \<le> pi"
proof -
  have "sin (pi / 6) \<le> pi / 6"
    by (rule sin_x_le_x) simp
  then show ?thesis by (simp add: sin_30)
qed

lemma sin_ge_cubic: "0 \<le> x \<Longrightarrow> x - x ^ 3 / 6 \<le> sin x" for x :: real
proof -
  assume x: "0 \<le> x"
  have "\<bar>sin x - (\<Sum>m<3. sin_coeff m * x ^ m)\<bar> \<le> inverse (fact 3) * \<bar>x\<bar> ^ 3"
    by (rule Maclaurin_sin_bound)
  moreover have "(\<Sum>m<3. sin_coeff m * x ^ m) = x"
    by (simp add: sin_coeff_def numeral_3_eq_3)
  moreover have "inverse (fact 3) * \<bar>x\<bar> ^ 3 = x ^ 3 / 6"
    using x by (simp add: fact_numeral numeral_3_eq_3)
  ultimately show ?thesis by linarith
qed

lemma sin_ge_small: "0 \<le> x \<Longrightarrow> x \<le> 1 / 1000 \<Longrightarrow> 999 / 1000 * x \<le> sin x" for x :: real
proof -
  assume x: "0 \<le> x" "x \<le> 1 / 1000"
  have "x ^ 2 \<le> (1 / 1000) ^ 2"
    using x by (intro power_mono) simp_all
  then have "x ^ 2 * x \<le> (1 / 1000) ^ 2 * x"
    using x by (intro mult_right_mono) simp_all
  then have "x ^ 3 / 6 \<le> x / 1000"
    using x by (simp add: power3_eq_cube power2_eq_square)
  with sin_ge_cubic [OF x(1)] show ?thesis by simp
qed

lemma cos_ge_quadratic: "1 - x\<^sup>2 / 2 \<le> cos x" for x :: real
proof -
  have "\<bar>sin (x / 2)\<bar> \<le> \<bar>x / 2\<bar>"
    by (rule abs_sin_x_le_abs_x)
  then have "(sin (x / 2))\<^sup>2 \<le> (x / 2)\<^sup>2"
    by (metis abs_le_square_iff abs_abs)
  moreover have "cos x = 1 - 2 * (sin (x / 2))\<^sup>2"
    using cos_double_sin [of "x / 2"] by simp
  ultimately show ?thesis by (simp add: power2_eq_square)
qed

text \<open>The square of the sine of a small angle of d degrees, from below.\<close>

lemma sin_sq_small_degrees:
  assumes d: "0 \<le> d" "d \<le> 45 / 1000" and l: "l \<le> 999 / 1000 * (d * 3 / 180)" "0 \<le> l"
  shows "l\<^sup>2 \<le> (sin (radians d))\<^sup>2"
proof -
  have r0: "0 \<le> radians d"
    using d by (simp add: radians_def)
  have "d * pi \<le> (45 / 1000) * 4"
    using d pi_less_4 by (intro mult_mono) simp_all
  then have r1: "radians d \<le> 1 / 1000"
    by (simp add: radians_def mult.commute)
  have "d * 3 \<le> d * pi"
    using d pi_ge_3 by (intro mult_left_mono) simp_all
  then have "d * 3 / 180 \<le> radians d"
    by (simp add: radians_def mult.commute)
  then have "l \<le> 999 / 1000 * radians d"
    using l by simp
  also have "\<dots> \<le> sin (radians d)"
    using r0 r1 by (rule sin_ge_small)
  finally have "l \<le> sin (radians d)" .
  with l(2) show ?thesis
    by (intro power_mono) simp_all
qed

text \<open>The cosine of a latitude of at most 41 degrees north, from below.\<close>

lemma cos_degrees_ge:
  assumes d: "0 \<le> d" "d \<le> 41"
  shows "58 / 100 \<le> cos (radians d)"
proof -
  have "d * pi \<le> 41 * 4"
    using d pi_less_4 by (intro mult_mono) simp_all
  then have r1: "radians d \<le> 41 * 4 / 180"
    by (simp add: radians_def mult.commute)
  have r0: "0 \<le> radians d"
    using d by (simp add: radians_def)
  have "(radians d)\<^sup>2 \<le> (41 * 4 / 180)\<^sup>2"
    using r0 r1 by (intro power_mono) simp_all
  then have "58 / 100 \<le> 1 - (radians d)\<^sup>2 / 2"
    by (simp add: power2_eq_square)
  also have "\<dots> \<le> cos (radians d)"
    by (rule cos_ge_quadratic)
  finally show ?thesis .
qed


lemma arcsin_sqrt_gt:
  assumes y: "0 \<le> y" "y \<le> 1" and a: "y\<^sup>2 < a" "a \<le> 1"
  shows "y < arcsin (sqrt a)"
proof -
  have "sin y \<le> y"
    using y(1) by (rule sin_x_le_x)
  also have "y < sqrt a"
    using a(1) by (rule real_less_rsqrt)
  finally have "sin y < sqrt a" .
  moreover have "sqrt a \<le> 1"
    using a(2) by simp
  ultimately have "arcsin (sin y) < arcsin (sqrt a)"
    by (intro arcsin_less_arcsin) simp_all
  moreover have "arcsin (sin y) = y"
    using y pi_ge_3 by (intro arcsin_sin) simp_all
  ultimately show ?thesis by simp
qed

lemma haversine_a_example:
  "haversine_a (radians 40.8) (radians (- 73.92)) (radians 40.7128) (radians (- 74.0060)) =
     (sin (radians 0.0436))\<^sup>2 +
     cos (radians 40.8) * cos (radians 40.7128) * (sin (radians 0.043))\<^sup>2"
proof -
  have 1: "(radians 40.7128 - radians 40.8) / 2 = - radians 0.0436"
    by (simp add: radians_def)
  have 2: "(radians (- 74.0060) - radians (- 73.92)) / 2 = - radians 0.043"
    by (simp add: radians_def)
  show ?thesis
    unfolding haversine_a_def Let_def 1 2 by simp
qed

lemma haversine_a_example_gt:
  "(5 / 6371)\<^sup>2 <
     haversine_a (radians 40.8) (radians (- 73.92)) (radians 40.7128) (radians (- 74.0060))"
proof -
  define S1 where "S1 = (sin (radians 0.0436))\<^sup>2"
  define S2 where "S2 = (sin (radians 0.043))\<^sup>2"
  define P where "P = cos (radians 40.8) * cos (radians 40.7128)"
  have s1: "(725 / 1000000)\<^sup>2 \<le> S1"
    unfolding S1_def by (rule sin_sq_small_degrees) simp_all
  have s2: "(715 / 1000000)\<^sup>2 \<le> S2"
    unfolding S2_def by (rule sin_sq_small_degrees) simp_all
  have c1: "58 / 100 \<le> cos (radians 40.8)"
    by (rule cos_degrees_ge) simp_all
  have c2: "58 / 100 \<le> cos (radians 40.7128)"
    by (rule cos_degrees_ge) simp_all
  have p: "(58 / 100) * (58 / 100) \<le> P"
    unfolding P_def using c1 c2 by (rule mult_mono) (use c1 in simp_all)
  have "(58 / 100) * (58 / 100) * (715 / 1000000)\<^sup>2 \<le> P * S2"
    using p s2 by (rule mult_mono) (use p in simp_all)
  with s1 have "(725 / 1000000)\<^sup>2 + (58 / 100) * (58 / 100) * (715 / 1000000)\<^sup>2 \<le> S1 + P * S2"
    by (rule add_mono)
  moreover have
    "(5 / 6371)\<^sup>2 < (725 / 1000000 :: real)\<^sup>2 + (58 / 100) * (58 / 100) * (715 / 1000000)\<^sup>2"
    by (simp add: power2_eq_square)
  ultimately have "(5 / 6371)\<^sup>2 < S1 + P * S2"
    by linarith
  then show ?thesis
    unfolding haversine_a_example S1_def S2_def P_def .
qed

lemma church2_distance:
  "haversine_distance 40.8 (- 73.92) 40.7128 (- 74.0060) = Inr d \<Longrightarrow> 10 < d"
proof -
  assume h: "haversine_distance 40.8 (- 73.92) 40.7128 (- 74.0060) = Inr d"
  define a where
    "a = haversine_a (radians 40.8) (radians (- 73.92)) (radians 40.7128) (radians (- 74.0060))"
  have d: "d = 2 * arcsin (sqrt a) * 6371"
    using h by (simp add: haversine_distance_total a_def)
  have "5 / 6371 < arcsin (sqrt a)"
  proof (rule arcsin_sqrt_gt)
    show "(5 / 6371 :: real)\<^sup>2 < a"
      unfolding a_def by (rule haversine_a_example_gt)
    show "a \<le> 1"
      unfolding a_def by (rule haversine_a_range)
  qed simp_all
  then show ?thesis
    unfolding d by simp
qed


lemma haversine_distance_great_circle:
  "haversine_distance lat1 lon1 lat2 lon2 = Inr (great_circle_km lat1 lon1 lat2 lon2)"
  by (simp add: haversine_distance_total great_circle_km_def)

lemma distance_to_point_total:
  "distance_to_point c lat lng =
     Inr (map_option (\<lambda>(la, lo). great_circle_km la lo lat lng) (coordinates c))"
  by (simp add: distance_to_point_def haversine_distance_great_circle split: option.split)

lemma add_distance_total:
  "add_distance lat lng cs =
     Inr (map (\<lambda>c. (c, Distance (map_option (\<lambda>(la, lo). great_circle_km la lo lat lng)
                                    (coordinates c)))) cs)"
  by (induction cs) (simp_all add: distance_to_point_total)

lemma set_objects_filter: "set (objects_filter cond w) = {r \<in> set (db w). cond r}"
  by (simp add: objects_filter_def)

lemma get_queryset_coordinates:
  assumes "a \<noteq> []" "b \<noteq> []" "float_of_str w a = Some lat" "float_of_str w b = Some lng"
    and "cos (radians lat) \<noteq> 0"
  shows "get_queryset \<lparr>qp_q = q, qp_lat = Some a, qp_lng = Some b, qp_radius = r\<rparr> w =
    (Inr (map (\<lambda>c. (c, Distance (map_option (\<lambda>(la, lo). great_circle_km la lo lat lng)
                                    (coordinates c))))
           (objects_filter
              (\<lambda>c. in_range (latitude c)
                        (lat - (case r of None \<Rightarrow> 50
                                | Some s \<Rightarrow> (case float_of_str w s of None \<Rightarrow> 50 | Some x \<Rightarrow> x)) / 111.32)
                        (lat + (case r of None \<Rightarrow> 50
                                | Some s \<Rightarrow> (case float_of_str w s of None \<Rightarrow> 50 | Some x \<Rightarrow> x)) / 111.32) \<and>
                   in_range (longitude c)
                        (lng - (case r of None \<Rightarrow> 50
                                | Some s \<Rightarrow> (case float_of_str w s of None \<Rightarrow> 50 | Some x \<Rightarrow> x))
                               / (111.32 * cos (radians lat)))
                        (lng + (case r of None \<Rightarrow> 50
                                | Some s \<Rightarrow> (case float_of_str w s of None \<Rightarrow> 50 | Some x \<Rightarrow> x))
                               / (111.32 * cos (radians lat))) \<and>
                   is_active c = PBool True) w)), w)"
  using assms
  by (simp add: get_queryset_def Let_def nearby_with_distance_def find_nearby_def add_distance_total)

lemma cos_center: "0 < cos (radians 40.7128)" "cos (radians 40.7128) \<le> 1"
proof -
  have "58 / 100 \<le> cos (radians 40.7128)"
    by (rule cos_degrees_ge) simp_all
  then show "0 < cos (radians 40.7128)" by simp
  show "cos (radians 40.7128) \<le> 1" by simp
qed

text \<open>
  C3, amended: for every table and every search with lat=40.7128, lng=-74.0060 and
  radius=10, the result holds exactly the active churches inside the bounding box
  (latitude within 10/111.32 degrees of 40.7128, longitude within
  10/(111.32 cos 40.7128 degrees) degrees of -74.0060), each with a non-null distance
  annotation, which is its great-circle distance to the centre. No bound of 10 km on
  that distance is claimed.
\<close>

theorem proximity_search_bounding_box:
  assumes "a \<noteq> []" "b \<noteq> []" "float_of_str w a = Some 40.7128"
    "float_of_str w b = Some (- 74.0060)" "float_of_str w r = Some 10"
  shows "\<exists>res. get_queryset \<lparr>qp_q = q, qp_lat = Some a, qp_lng = Some b, qp_radius = Some r\<rparr> w
            = (Inr res, w)
     \<and> (\<forall>c ann. (c, ann) \<in> set res \<longleftrightarrow>
           c \<in> set (db w) \<and> is_active c = PBool True \<and>
           (\<exists>la lo. latitude c = Some la \<and> longitude c = Some lo \<and>
              40.7128 - 10 / 111.32 \<le> la \<and> la \<le> 40.7128 + 10 / 111.32 \<and>
              - 74.0060 - 10 / (111.32 * cos (radians 40.7128)) \<le> lo \<and>
              lo \<le> - 74.0060 + 10 / (111.32 * cos (radians 40.7128)) \<and>
              ann = Distance (Some (great_circle_km la lo 40.7128 (- 74.0060)))))"
proof -
  have c: "cos (radians 40.7128) \<noteq> 0"
    using cos_center(1) by simp
  note eq = get_queryset_coordinates [OF assms(1,2,3,4) c, of q "Some r"]
  show ?thesis
    unfolding eq
    by (rule exI, rule conjI, rule refl)
       (auto simp: assms(5) set_objects_filter in_range_def coordinates_def image_iff
             split: option.splits)
qed


lemma lon_delta_ge: "10 / 111.32 \<le> 10 / (111.32 * cos (radians 40.7128))"
proof -
  have "111.32 * cos (radians 40.7128) \<le> 111.32 * 1"
    using cos_center(2) by (intro mult_left_mono) simp_all
  moreover have "0 < 111.32 * (111.32 * cos (radians 40.7128))"
    using cos_center(1) by simp
  ultimately show ?thesis
    by (intro divide_left_mono) simp_all
qed

lemma church2_in_box:
  "40.7128 - 10 / 111.32 \<le> (40.8 :: real)" "(40.8 :: real) \<le> 40.7128 + 10 / 111.32"
  "- 74.0060 - 10 / (111.32 * cos (radians 40.7128)) \<le> - 73.92"
  "- 73.92 \<le> - 74.0060 + 10 / (111.32 * cos (radians 40.7128))"
proof -
  show "40.7128 - 10 / 111.32 \<le> (40.8 :: real)" by simp
  show "(40.8 :: real) \<le> 40.7128 + 10 / 111.32" by simp
  define dl where "dl = 10 / (111.32 * cos (radians 40.7128))"
  have "(0.086 :: real) \<le> 10 / 111.32" by simp
  with lon_delta_ge have d: "0.086 \<le> dl"
    unfolding dl_def by linarith
  from d have "- 74.0060 - dl \<le> - 73.92" by simp
  then show "- 74.0060 - 10 / (111.32 * cos (radians 40.7128)) \<le> - 73.92"
    unfolding dl_def .
  from d have "- 73.92 \<le> - 74.0060 + dl" by simp
  then show "- 73.92 \<le> - 74.0060 + 10 / (111.32 * cos (radians 40.7128))"
    unfolding dl_def .
qed

lemma search_request_world2:
  "get_queryset search_request world2 =
     (Inr [(church2, Distance (Some (great_circle_km 40.8 (- 73.92) 40.7128 (- 74.0060))))],
      world2)"
proof -
  have c: "cos (radians 40.7128) \<noteq> 0"
    using cos_center(1) by simp
  have f: "float_of_str world2 ''40.7128'' = Some 40.7128"
    "float_of_str world2 ''-74.0060'' = Some (- 74.0060)"
    "float_of_str world2 ''10'' = Some 10"
    by (simp_all add: world2_def)
  have d: "db world2 = [church2]"
    by (simp add: world2_def)
  have ch: "latitude church2 = Some 40.8" "longitude church2 = Some (- 73.92)"
    "is_active church2 = PBool True"
    by (simp_all add: church2_def church0_def)
  have "get_queryset search_request world2 =
      get_queryset \<lparr>qp_q = None, qp_lat = Some ''40.7128'', qp_lng = Some ''-74.0060'',
                      qp_radius = Some ''10''\<rparr> world2"
    by (simp add: search_request_def)
  also note get_queryset_coordinates [OF _ _ f(1) f(2) c, of None "Some ''10''"]
  finally show ?thesis
    using church2_in_box
    by (simp add: f(3) objects_filter_def d ch in_range_def coordinates_def)
qed

text \<open>
  C3, as stated, fails: the church at (40.8, -73.92) lies inside the bounding box, so the
  search returns it, and its great-circle distance to the centre is more than 10 km.
\<close>

theorem proximity_search_counterexample:
  "get_queryset search_request world2 =
     (Inr [(church2, Distance (Some (great_circle_km 40.8 (- 73.92) 40.7128 (- 74.0060))))],
      world2)
   \<and> distance_to_point church2 40.7128 (- 74.0060) =
       Inr (Some (great_circle_km 40.8 (- 73.92) 40.7128 (- 74.0060)))
   \<and> 10 < great_circle_km 40.8 (- 73.92) 40.7128 (- 74.0060)"
proof (intro conjI)
  show "get_queryset search_request world2 =
     (Inr [(church2, Distance (Some (great_circle_km 40.8 (- 73.92) 40.7128 (- 74.0060))))],
      world2)"
    by (rule search_request_world2)
  show "distance_to_point church2 40.7128 (- 74.0060) =
       Inr (Some (great_circle_km 40.8 (- 73.92) 40.7128 (- 74.0060)))"
    by (simp add: distance_to_point_total coordinates_def church2_def church0_def)
  show "10 < great_circle_km 40.8 (- 73.92) 40.7128 (- 74.0060)"
    by (rule church2_distance) (rule haversine_distance_great_circle)
qed

theorem proximity_search_bounding_box_witness:
  "\<exists>res. get_queryset search_request world2 = (Inr res, world2)
     \<and> (church2, Distance (Some (great_circle_km 40.8 (- 73.92) 40.7128 (- 74.0060)))) \<in> set res"
proof -
  have f: "float_of_str world2 ''40.7128'' = Some 40.7128"
    "float_of_str world2 ''-74.0060'' = Some (- 74.0060)"
    "float_of_str world2 ''10'' = Some 10"
    by (simp_all add: world2_def)
  have ch: "church2 \<in> set (db world2)" "latitude church2 = Some 40.8"
    "longitude church2 = Some (- 73.92)" "is_active church2 = PBool True"
    by (simp_all add: world2_def church2_def church0_def)
  from proximity_search_bounding_box [OF _ _ f, of None]
  obtain res where
    r: "get_queryset \<lparr>qp_q = None, qp_lat = Some ''40.7128'', qp_lng = Some ''-74.0060'',
                       qp_radius = Some ''10''\<rparr> world2 = (Inr res, world2)"
    and m: "\<And>c ann. (c, ann) \<in> set res \<longleftrightarrow>
           c \<in> set (db world2) \<and> is_active c = PBool True \<and>
           (\<exists>la lo. latitude c = Some la \<and> longitude c = Some lo \<and>
              40.7128 - 10 / 111.32 \<le> la \<and> la \<le> 40.7128 + 10 / 111.32 \<and>
              - 74.0060 - 10 / (111.32 * cos (radians 40.7128)) \<le> lo \<and>
              lo \<le> - 74.0060 + 10 / (111.32 * cos (radians 40.7128)) \<and>
              ann = Distance (Some (great_circle_km la lo 40.7128 (- 74.0060))))"
    by auto
  have "(church2, Distance (Some (great_circle_km 40.8 (- 73.92) 40.7128 (- 74.0060)))) \<in> set res"
    unfolding m using ch church2_in_box by blast
  with r show ?thesis
    by (auto simp: search_request_def)
qed

end
